theory Spec2Isabelle
  imports Complex_Main
begin

section \<open>JavaScript values\<close>

text \<open>
  The quota module (\<^verbatim>\<open>src/api/quota.ts\<close>) works on loosely typed JSON data
  (\<^verbatim>\<open>any\<close>). Numbers are modelled as exact rationals extended with
  \<^verbatim>\<open>NaN\<close> and the two infinities: the rounding of IEEE doubles and the sign of
  zero are not modelled. Strings are lists of 8-bit characters. An object is the list of
  its own properties in the order \<^verbatim>\<open>Object.entries\<close> enumerates them; a lookup
  takes the first binding of a key.
\<close>

datatype jsnum = NaN | PInf | NInf | Fin rat

datatype jsval =
    JUndefined
  | JNull
  | JBool bool
  | JNum jsnum
  | JStr string
  | JArr "jsval list"
  | JObj "(string \<times> jsval) list"

subsection \<open>Numbers\<close>

fun is_nan :: "jsnum \<Rightarrow> bool" where
  "is_nan NaN = True"
| "is_nan _ = False"

fun is_finite :: "jsnum \<Rightarrow> bool" where
  "is_finite (Fin _) = True"
| "is_finite _ = False"

text \<open>The relational operators on numbers: every comparison with \<^verbatim>\<open>NaN\<close> is false.\<close>

fun num_lt :: "jsnum \<Rightarrow> jsnum \<Rightarrow> bool" where
  "num_lt NaN _ = False"
| "num_lt _ NaN = False"
| "num_lt (Fin a) (Fin b) = (a < b)"
| "num_lt (Fin _) PInf = True"
| "num_lt (Fin _) NInf = False"
| "num_lt PInf _ = False"
| "num_lt NInf NInf = False"
| "num_lt NInf _ = True"

definition num_gt :: "jsnum \<Rightarrow> jsnum \<Rightarrow> bool" where
  "num_gt a b = num_lt b a"

definition num_le :: "jsnum \<Rightarrow> jsnum \<Rightarrow> bool" where
  "num_le a b = (\<not> is_nan a \<and> \<not> is_nan b \<and> \<not> num_lt b a)"

definition num_ge :: "jsnum \<Rightarrow> jsnum \<Rightarrow> bool" where
  "num_ge a b = (\<not> is_nan a \<and> \<not> is_nan b \<and> \<not> num_lt a b)"

text \<open>\<^verbatim>\<open>Math.min(a, b)\<close> and \<^verbatim>\<open>Math.max(a, b)\<close>.\<close>

definition math_min :: "jsnum \<Rightarrow> jsnum \<Rightarrow> jsnum" where
  "math_min a b = (if is_nan a \<or> is_nan b then NaN else if num_lt b a then b else a)"

definition math_max :: "jsnum \<Rightarrow> jsnum \<Rightarrow> jsnum" where
  "math_max a b = (if is_nan a \<or> is_nan b then NaN else if num_lt a b then b else a)"

text \<open>\<^verbatim>\<open>Math.min(...xs)\<close>: the minimum of no argument is \<^verbatim>\<open>Infinity\<close>.\<close>

definition math_min_list :: "jsnum list \<Rightarrow> jsnum" where
  "math_min_list xs = foldl math_min PInf xs"

fun num_neg :: "jsnum \<Rightarrow> jsnum" where
  "num_neg NaN = NaN"
| "num_neg PInf = NInf"
| "num_neg NInf = PInf"
| "num_neg (Fin a) = Fin (- a)"

fun num_add :: "jsnum \<Rightarrow> jsnum \<Rightarrow> jsnum" where
  "num_add NaN _ = NaN"
| "num_add _ NaN = NaN"
| "num_add (Fin a) (Fin b) = Fin (a + b)"
| "num_add PInf NInf = NaN"
| "num_add NInf PInf = NaN"
| "num_add PInf _ = PInf"
| "num_add NInf _ = NInf"
| "num_add (Fin _) b = b"

definition num_sub :: "jsnum \<Rightarrow> jsnum \<Rightarrow> jsnum" where
  "num_sub a b = num_add a (num_neg b)"

text \<open>Multiplication and division by a positive finite constant, the only forms the module uses
  (\<^verbatim>\<open>x * 100\<close>, \<^verbatim>\<open>x / 100\<close>, \<^verbatim>\<open>Date.now() / 1000\<close>).\<close>

fun num_scale :: "jsnum \<Rightarrow> rat \<Rightarrow> jsnum" where
  "num_scale (Fin a) k = Fin (a * k)"
| "num_scale x k = x"

definition num_div :: "jsnum \<Rightarrow> rat \<Rightarrow> jsnum" where
  "num_div a k = num_scale a (1 / k)"

text \<open>\<^verbatim>\<open>Math.round\<close> rounds halves up; \<^verbatim>\<open>Math.floor\<close>.\<close>

fun math_round :: "jsnum \<Rightarrow> jsnum" where
  "math_round (Fin a) = Fin (of_int \<lfloor>a + 1 / 2\<rfloor>)"
| "math_round x = x"


subsection \<open>Strings\<close>

definition is_ws :: "char \<Rightarrow> bool" where
  "is_ws c = ((of_char c :: nat) \<in> {9, 10, 11, 12, 13, 32, 160})"

definition trim :: "string \<Rightarrow> string" where
  "trim s = rev (dropWhile is_ws (rev (dropWhile is_ws s)))"

definition lower_char :: "char \<Rightarrow> char" where
  "lower_char c = (let n = (of_char c :: nat) in if 65 \<le> n \<and> n \<le> 90 then char_of (n + 32) else c)"

definition toLowerCase :: "string \<Rightarrow> string" where
  "toLowerCase s = map lower_char s"

definition endsWith :: "string \<Rightarrow> string \<Rightarrow> bool" where
  "endsWith s suf = (length suf \<le> length s \<and> drop (length s - length suf) s = suf)"

text \<open>\<^verbatim>\<open>s.slice(0, -k)\<close>.\<close>

definition slice_to_minus :: "string \<Rightarrow> nat \<Rightarrow> string" where
  "slice_to_minus s k = take (length s - k) s"

definition is_digit :: "char \<Rightarrow> bool" where
  "is_digit c = (let n = (of_char c :: nat) in 48 \<le> n \<and> n \<le> 57)"

definition digit_val :: "char \<Rightarrow> nat" where
  "digit_val c = (of_char c :: nat) - 48"

definition digits_val :: "string \<Rightarrow> nat" where
  "digits_val ds = foldl (\<lambda>a c. 10 * a + digit_val c) 0 ds"

subsection \<open>Reading numbers from strings\<close>

text \<open>
  \<^verbatim>\<open>parseFloat\<close> reads the longest prefix of the string, after leading white space,
  that is a decimal literal: an optional sign, then \<^verbatim>\<open>Infinity\<close> or digits with an
  optional fraction and an optional exponent. No such prefix gives \<^verbatim>\<open>NaN\<close>.
\<close>

definition pow10 :: "int \<Rightarrow> rat" where
  "pow10 e = (if 0 \<le> e then 10 ^ nat e else 1 / 10 ^ nat (- e))"

definition parse_exponent :: "string \<Rightarrow> int \<times> string" where
  "parse_exponent s =
     (case s of
        [] \<Rightarrow> (0, s)
      | c # t \<Rightarrow>
          if c = CHR ''e'' \<or> c = CHR ''E'' then
            (let neg = (case t of [] \<Rightarrow> False | d # _ \<Rightarrow> d = CHR ''-'');
                 u = (case t of [] \<Rightarrow> t | d # u' \<Rightarrow> if d = CHR ''-'' \<or> d = CHR ''+'' then u' else t);
                 ds = takeWhile is_digit u
             in if ds = [] then (0, s)
                else (if neg then - int (digits_val ds) else int (digits_val ds), dropWhile is_digit u))
          else (0, s))"

definition mantissa :: "string \<Rightarrow> string \<Rightarrow> string \<Rightarrow> jsnum \<times> string" where
  "mantissa ip fp rest =
     (let (e, r) = parse_exponent rest
      in (Fin (of_nat (digits_val (ip @ fp)) / 10 ^ length fp * pow10 e), r))"

definition parse_unsigned :: "string \<Rightarrow> (jsnum \<times> string) option" where
  "parse_unsigned s =
     (if take 8 s = ''Infinity'' then Some (PInf, drop 8 s)
      else
        let ip = takeWhile is_digit s; r1 = dropWhile is_digit s in
        if ip \<noteq> [] then
          (case r1 of
             [] \<Rightarrow> Some (mantissa ip [] r1)
           | c # t \<Rightarrow>
               if c = CHR ''.'' then Some (mantissa ip (takeWhile is_digit t) (dropWhile is_digit t))
               else Some (mantissa ip [] r1))
        else
          (case s of
             [] \<Rightarrow> None
           | c # t \<Rightarrow>
               if c = CHR ''.'' \<and> takeWhile is_digit t \<noteq> []
               then Some (mantissa [] (takeWhile is_digit t) (dropWhile is_digit t))
               else None))"

definition parse_signed :: "string \<Rightarrow> (jsnum \<times> string) option" where
  "parse_signed s =
     (case s of
        [] \<Rightarrow> None
      | c # t \<Rightarrow>
          if c = CHR ''-'' then map_option (\<lambda>(v, r). (num_neg v, r)) (parse_unsigned t)
          else if c = CHR ''+'' then parse_unsigned t
          else parse_unsigned s)"

definition parse_float_str :: "string \<Rightarrow> jsnum" where
  "parse_float_str s =
     (case parse_signed (dropWhile is_ws s) of None \<Rightarrow> NaN | Some (v, _) \<Rightarrow> v)"

text \<open>
  \<^verbatim>\<open>parseFloat(v)\<close> reads \<^verbatim>\<open>String(v)\<close>. The string of a number reads back as
  that number; the string of an array joins its elements with commas, so only the first
  element is read; \<^verbatim>\<open>"undefined"\<close>, \<^verbatim>\<open>"null"\<close>, \<^verbatim>\<open>"true"\<close>,
  \<^verbatim>\<open>"false"\<close> and \<^verbatim>\<open>"[object Object]"\<close> have no numeric prefix.
\<close>

fun parseFloat :: "jsval \<Rightarrow> jsnum" where
  "parseFloat (JNum n) = n"
| "parseFloat (JStr s) = parse_float_str s"
| "parseFloat (JArr (x # xs)) = parseFloat x"
| "parseFloat _ = NaN"

text \<open>
  \<^verbatim>\<open>ToNumber\<close> on a string: the whole trimmed string must be a numeric literal
  (decimal, or an unsigned hexadecimal, octal or binary integer); the empty string is 0.
\<close>

definition radix_digit :: "char \<Rightarrow> nat option" where
  "radix_digit c =
     (let n = (of_char c :: nat) in
      if 48 \<le> n \<and> n \<le> 57 then Some (n - 48)
      else if 97 \<le> n \<and> n \<le> 102 then Some (n - 87)
      else if 65 \<le> n \<and> n \<le> 70 then Some (n - 55)
      else None)"

definition radix_val :: "nat \<Rightarrow> string \<Rightarrow> jsnum" where
  "radix_val b ds =
     (if ds \<noteq> [] \<and> (\<forall>c \<in> set ds. case radix_digit c of None \<Rightarrow> False | Some d \<Rightarrow> d < b)
      then Fin (of_nat (foldl (\<lambda>a c. b * a + the (radix_digit c)) 0 ds))
      else NaN)"

definition str_to_number :: "string \<Rightarrow> jsnum" where
  "str_to_number s =
     (let t = trim s in
      if t = [] then Fin 0
      else if take 2 t = ''0x'' \<or> take 2 t = ''0X'' then radix_val 16 (drop 2 t)
      else if take 2 t = ''0o'' \<or> take 2 t = ''0O'' then radix_val 8 (drop 2 t)
      else if take 2 t = ''0b'' \<or> take 2 t = ''0B'' then radix_val 2 (drop 2 t)
      else (case parse_signed t of Some (v, []) \<Rightarrow> v | _ \<Rightarrow> NaN))"

text \<open>
  \<^verbatim>\<open>ToNumber\<close> on a value. An array is converted through its string: the empty
  array reads as 0, a one-element array as its element's string, a longer one has a comma
  and is \<^verbatim>\<open>NaN\<close>.
\<close>

fun to_number :: "jsval \<Rightarrow> jsnum" where
  "to_number JUndefined = NaN"
| "to_number JNull = Fin 0"
| "to_number (JBool b) = (if b then Fin 1 else Fin 0)"
| "to_number (JNum n) = n"
| "to_number (JStr s) = str_to_number s"
| "to_number (JArr []) = Fin 0"
| "to_number (JArr [x]) =
     (case x of
        JUndefined \<Rightarrow> Fin 0
      | JNull \<Rightarrow> Fin 0
      | JBool _ \<Rightarrow> NaN
      | JObj _ \<Rightarrow> NaN
      | _ \<Rightarrow> to_number x)"
| "to_number (JArr (x # y # ys)) = NaN"
| "to_number (JObj _) = NaN"

subsection \<open>Truthiness, operators and property access\<close>

fun truthy :: "jsval \<Rightarrow> bool" where
  "truthy JUndefined = False"
| "truthy JNull = False"
| "truthy (JBool b) = b"
| "truthy (JNum n) = (n \<noteq> NaN \<and> n \<noteq> Fin 0)"
| "truthy (JStr s) = (s \<noteq> [])"
| "truthy (JArr _) = True"
| "truthy (JObj _) = True"

definition nullish :: "jsval \<Rightarrow> bool" where
  "nullish v = (v = JNull \<or> v = JUndefined)"

text \<open>\<^verbatim>\<open>a || b\<close> and \<^verbatim>\<open>a ?? b\<close>.\<close>

definition js_or :: "jsval \<Rightarrow> jsval \<Rightarrow> jsval" where
  "js_or a b = (if truthy a then a else b)"

definition js_nc :: "jsval \<Rightarrow> jsval \<Rightarrow> jsval" where
  "js_nc a b = (if nullish a then b else a)"

fun is_string :: "jsval \<Rightarrow> bool" where
  "is_string (JStr _) = True"
| "is_string _ = False"

text \<open>\<^verbatim>\<open>typeof v === 'object'\<close> holds of \<^verbatim>\<open>null\<close>, arrays and objects.\<close>

fun typeof_object :: "jsval \<Rightarrow> bool" where
  "typeof_object JNull = True"
| "typeof_object (JArr _) = True"
| "typeof_object (JObj _) = True"
| "typeof_object _ = False"

fun isArray :: "jsval \<Rightarrow> bool" where
  "isArray (JArr _) = True"
| "isArray _ = False"

text \<open>
  Reading a property of a value that is neither \<^verbatim>\<open>null\<close> nor
  \<^verbatim>\<open>undefined\<close>: a missing property, and any of the module's property names on a
  primitive or an array, is \<^verbatim>\<open>undefined\<close>. \<open>field\<close> is the read where the source
  has checked the receiver, or uses \<^verbatim>\<open>?.\<close>; \<open>get_prop\<close> is the unguarded read
  \<^verbatim>\<open>v.k\<close>, a \<^verbatim>\<open>TypeError\<close> on \<^verbatim>\<open>null\<close> and \<^verbatim>\<open>undefined\<close>.
\<close>

fun field :: "jsval \<Rightarrow> string \<Rightarrow> jsval" where
  "field (JObj kvs) k = (case map_of kvs k of None \<Rightarrow> JUndefined | Some v \<Rightarrow> v)"
| "field _ k = JUndefined"

text \<open>
  A thrown value: a runtime \<^verbatim>\<open>TypeError\<close> (its message is the engine's), an
  \<^verbatim>\<open>Error\<close> with its message and its optional \<^verbatim>\<open>statusCode\<close> property, or
  any other value.
\<close>

datatype thrown =
    TypeError
  | Error (message: string) (error_statusCode: "jsnum option")
  | Thrown jsval

definition get_prop :: "jsval \<Rightarrow> string \<Rightarrow> thrown + jsval" where
  "get_prop v k = (if nullish v then Inl TypeError else Inr (field v k))"

text \<open>\<^verbatim>\<open>v?.k\<close>.\<close>

definition opt_field :: "jsval \<Rightarrow> string \<Rightarrow> jsval" where
  "opt_field v k = (if nullish v then JUndefined else field v k)"

text \<open>\<^verbatim>\<open>typeof v === 'string' && v.endsWith(suf)\<close>.\<close>

fun str_endsWith :: "jsval \<Rightarrow> string \<Rightarrow> bool" where
  "str_endsWith (JStr s) suf = endsWith s suf"
| "str_endsWith _ suf = False"

text \<open>\<^verbatim>\<open>Object.entries\<close> of a plain object.\<close>

fun entries :: "jsval \<Rightarrow> (string \<times> jsval) list" where
  "entries (JObj kvs) = kvs"
| "entries _ = []"

text \<open>
  Printing a number (\<^verbatim>\<open>String(n)\<close>, a template literal): an integer below
  \<open>10\<^sup>2\<^sup>1\<close> prints its decimal digits; the printing of every other finite number
  is the platform's, the parameter \<open>pr\<close>.
\<close>

fun dec_digits :: "nat \<Rightarrow> string" where
  "dec_digits n =
     (if n < 10 then [char_of (48 + n)] else dec_digits (n div 10) @ [char_of (48 + n mod 10)])"

fun show_num :: "(rat \<Rightarrow> string) \<Rightarrow> jsnum \<Rightarrow> string" where
  "show_num pr NaN = ''NaN''"
| "show_num pr PInf = ''Infinity''"
| "show_num pr NInf = ''-Infinity''"
| "show_num pr (Fin r) =
     (if r = of_int \<lfloor>r\<rfloor> \<and> \<bar>r\<bar> < 10 ^ 21
      then (if r < 0 then ''-'' else []) @ dec_digits (nat \<bar>\<lfloor>r\<rfloor>\<bar>)
      else pr r)"

text \<open>\<^verbatim>\<open>String(v)\<close>.\<close>

fun join_commas :: "string list \<Rightarrow> string" where
  "join_commas [] = []"
| "join_commas [s] = s"
| "join_commas (s # t # ss) = s @ '','' @ join_commas (t # ss)"

fun to_string :: "(rat \<Rightarrow> string) \<Rightarrow> jsval \<Rightarrow> string" where
  "to_string nts JUndefined = ''undefined''"
| "to_string nts JNull = ''null''"
| "to_string nts (JBool b) = (if b then ''true'' else ''false'')"
| "to_string nts (JNum n) = show_num nts n"
| "to_string nts (JStr s) = s"
| "to_string nts (JArr xs) =
     join_commas (map (\<lambda>x. if x = JNull \<or> x = JUndefined then [] else to_string nts x) xs)"
| "to_string nts (JObj _) = ''[object Object]''"

section \<open>The normalized quota items\<close>

text \<open>
  The three parsers push objects that share \<^verbatim>\<open>percent\<close>, \<^verbatim>\<open>remaining\<close>,
  \<^verbatim>\<open>used\<close>, \<^verbatim>\<open>total\<close> and \<^verbatim>\<open>resetTime\<close>; \<open>None\<close> is
  \<^verbatim>\<open>null\<close>, and an absent \<^verbatim>\<open>resetTime\<close> is \<^verbatim>\<open>undefined\<close>.
\<close>

record quota_item =
  percent :: "jsnum option"
  remaining :: "jsnum option"
  used :: "jsnum option"
  total :: jsnum
  resetTime :: jsval

record group_item = quota_item +
  name :: string
  hideInTable :: bool

record bucket_item = quota_item +
  modelId :: string

record limit_item = quota_item +
  model :: string

section \<open>Antigravity: \<^verbatim>\<open>antigravityQuota.parse\<close>\<close>

record group_def =
  gid :: string
  label :: string
  identifiers :: "string list"
  hide :: bool

definition modelGroups :: "group_def list" where
  "modelGroups =
    [\<lparr>gid = ''claude-gpt'', label = ''Claude/GPT'',
      identifiers = [''claude-sonnet-4-5-thinking'', ''claude-opus-4-5-thinking'',
        ''claude-opus-4-6-thinking'', ''claude-sonnet-4-5'', ''gpt-oss-120b-medium''],
      hide = False\<rparr>,
     \<lparr>gid = ''gemini-3-pro'', label = ''Gemini 3 Pro'',
      identifiers = [''gemini-3-pro-high'', ''gemini-3-pro-low''], hide = False\<rparr>,
     \<lparr>gid = ''gemini-2-5-pro'', label = ''Gemini 2.5 Pro'',
      identifiers = [''gemini-2.5-pro''], hide = False\<rparr>,
     \<lparr>gid = ''gemini-2-5-flash'', label = ''Gemini 2.5 Flash'',
      identifiers = [''gemini-2.5-flash'', ''gemini-2.5-flash-thinking''], hide = False\<rparr>,
     \<lparr>gid = ''gemini-2-5-cu'', label = ''Gemini 2.5 CU'',
      identifiers = [''rev19-uic3-1p''], hide = False\<rparr>,
     \<lparr>gid = ''gemini-2-5-flash-lite'', label = ''Gemini 2.5 Flash Lite'',
      identifiers = [''gemini-2.5-flash-lite''], hide = True\<rparr>,
     \<lparr>gid = ''gemini-3-flash'', label = ''Gemini 3 Flash'',
      identifiers = [''gemini-3-flash''], hide = False\<rparr>,
     \<lparr>gid = ''gemini-image'', label = ''Gemini Image'',
      identifiers = [''gemini-3-pro-image''], hide = False\<rparr>]"

text \<open>
  The inner loop of \<^verbatim>\<open>findModel\<close> over \<^verbatim>\<open>Object.entries(models)\<close>:
  \<^verbatim>\<open>(entry?.displayName || '').toLowerCase()\<close> is a \<^verbatim>\<open>TypeError\<close> when
  the display name is a truthy value that is not a string.
\<close>

fun find_displayName :: "(string \<times> jsval) list \<Rightarrow> string \<Rightarrow> thrown + (string \<times> jsval) option" where
  "find_displayName [] i = Inr None"
| "find_displayName ((key, entry) # rest) i =
     (case js_or (opt_field entry ''displayName'') (JStr []) of
        JStr displayName \<Rightarrow>
          if toLowerCase displayName = toLowerCase i then Inr (Some (key, entry))
          else find_displayName rest i
      | _ \<Rightarrow> Inl TypeError)"

fun findModel :: "jsval \<Rightarrow> string list \<Rightarrow> thrown + (string \<times> jsval) option" where
  "findModel models [] = Inr None"
| "findModel models (i # ids) =
     (let model = field models i in
      if truthy model then Inr (Some (i, model))
      else
        (case find_displayName (entries models) i of
           Inl e \<Rightarrow> Inl e
         | Inr (Some m) \<Rightarrow> Inr (Some m)
         | Inr None \<Rightarrow> findModel models ids))"

text \<open>The loop that collects \<^verbatim>\<open>matches\<close> for one group.\<close>

fun group_matches :: "jsval \<Rightarrow> string list \<Rightarrow> thrown + (string \<times> jsval) list" where
  "group_matches models [] = Inr []"
| "group_matches models (identifier # rest) =
     (case findModel models [identifier] of
        Inl e \<Rightarrow> Inl e
      | Inr m \<Rightarrow>
          (case group_matches models rest of
             Inl e \<Rightarrow> Inl e
           | Inr ms \<Rightarrow> Inr (case m of None \<Rightarrow> ms | Some x \<Rightarrow> x # ms)))"

record quota_entry =
  qid :: string
  remainingFraction :: jsnum
  entry_resetTime :: jsval
  displayName :: jsval

text \<open>
  The callback of \<^verbatim>\<open>matches.map\<close>, in three parts: the quota object of an entry,
  the remaining fraction read from it (\<open>None\<close> is \<^verbatim>\<open>null\<close>), and the entry
  built from both; \<open>None\<close> is the \<^verbatim>\<open>null\<close> that the following
  \<^verbatim>\<open>filter\<close> removes.
\<close>

definition quotaInfo_of :: "jsval \<Rightarrow> jsval" where
  "quotaInfo_of entry =
     js_or (js_or (opt_field entry ''quotaInfo'') (opt_field entry ''quota_info'')) (JObj [])"

definition entry_fraction :: "jsval \<Rightarrow> jsnum option" where
  "entry_fraction quotaInfo =
     (let raw = js_or (js_or (field quotaInfo ''remainingFraction'') (field quotaInfo ''remaining_fraction''))
                  (field quotaInfo ''remaining'');
          parsed = (if str_endsWith raw ''%'' then num_div (parseFloat raw) 100 else parseFloat raw)
      in if is_nan parsed then
           (if truthy (js_or (field quotaInfo ''resetTime'') (field quotaInfo ''reset_time''))
            then Some (Fin 0) else None)
         else Some parsed)"

definition quotaEntry :: "string \<times> jsval \<Rightarrow> quota_entry option" where
  "quotaEntry m =
     (let entry = snd m; quotaInfo = quotaInfo_of entry in
      case entry_fraction quotaInfo of
        None \<Rightarrow> None
      | Some f \<Rightarrow>
          Some \<lparr>qid = fst m,
                remainingFraction = math_max (Fin 0) (math_min (Fin 1) f),
                entry_resetTime = js_or (field quotaInfo ''resetTime'') (field quotaInfo ''reset_time''),
                displayName = opt_field entry ''displayName''\<rparr>)"

definition group_of :: "group_def \<Rightarrow> quota_entry list \<Rightarrow> group_item" where
  "group_of groupDef quotaEntries =
     (let fraction = math_min_list (map remainingFraction quotaEntries);
          p = math_round (num_scale fraction 100)
      in \<lparr>percent = Some p, remaining = Some p, used = Some (num_sub (Fin 100) p), total = Fin 100,
          resetTime = (case find (\<lambda>e. truthy (entry_resetTime e)) quotaEntries of
                         None \<Rightarrow> JUndefined | Some e \<Rightarrow> entry_resetTime e),
          name = label groupDef, hideInTable = hide groupDef\<rparr>)"

text \<open>One turn of the loop over \<^verbatim>\<open>modelGroups\<close>: \<open>None\<close> is \<^verbatim>\<open>continue\<close>.\<close>

definition parse_group :: "jsval \<Rightarrow> group_def \<Rightarrow> thrown + group_item option" where
  "parse_group models groupDef =
     (case group_matches models (identifiers groupDef) of
        Inl e \<Rightarrow> Inl e
      | Inr matches \<Rightarrow>
          if matches = [] then Inr None
          else
            (let quotaEntries = List.map_filter quotaEntry matches in
             if quotaEntries = [] then Inr None
             else Inr (Some (group_of groupDef quotaEntries))))"

fun parse_groups :: "jsval \<Rightarrow> group_def list \<Rightarrow> thrown + group_item list" where
  "parse_groups models [] = Inr []"
| "parse_groups models (groupDef # rest) =
     (case parse_group models groupDef of
        Inl e \<Rightarrow> Inl e
      | Inr g \<Rightarrow>
          (case parse_groups models rest of
             Inl e \<Rightarrow> Inl e
           | Inr gs \<Rightarrow> Inr (case g of None \<Rightarrow> gs | Some x \<Rightarrow> x # gs)))"

text \<open>\<^verbatim>\<open>antigravityQuota.parse(data)\<close>; the result is the \<^verbatim>\<open>groups\<close> array.\<close>

definition antigravity_parse :: "jsval \<Rightarrow> thrown + group_item list" where
  "antigravity_parse data =
     (case get_prop data ''models'' of
        Inl e \<Rightarrow> Inl e
      | Inr m \<Rightarrow>
          (let models = js_or m (JObj []) in
           if \<not> typeof_object models \<or> isArray models then Inr []
           else parse_groups models modelGroups))"

section \<open>Gemini CLI: \<^verbatim>\<open>geminiCliQuota.parse\<close>\<close>

text \<open>\<^verbatim>\<open>v <= 0\<close> for any value \<open>v\<close>: the comparison converts \<open>v\<close> to a number.\<close>

definition js_le_zero :: "jsval \<Rightarrow> bool" where
  "js_le_zero v = num_le (to_number v) (Fin 0)"

text \<open>The remaining fraction of a bucket after the fallbacks; \<open>None\<close> is \<^verbatim>\<open>null\<close>.\<close>

definition bucket_fraction :: "jsval \<Rightarrow> jsnum option" where
  "bucket_fraction bucket =
     (let raw = js_or (field bucket ''remainingFraction'') (field bucket ''remaining_fraction'');
          parsed = (if str_endsWith raw ''%'' then num_div (parseFloat raw) 100 else parseFloat raw)
      in if is_nan parsed then
           (let remainingAmount = js_or (field bucket ''remainingAmount'') (field bucket ''remaining_amount'') in
            if remainingAmount \<noteq> JNull \<and> remainingAmount \<noteq> JUndefined then
              (if js_le_zero remainingAmount then Some (Fin 0) else None)
            else
              (if truthy (js_or (field bucket ''resetTime'') (field bucket ''reset_time''))
               then Some (Fin 0) else None))
         else Some parsed)"

definition bucket_of :: "string \<Rightarrow> jsnum \<Rightarrow> jsval \<Rightarrow> bucket_item" where
  "bucket_of mid fraction bucket =
     (let p = math_round (num_scale (math_max (Fin 0) (math_min (Fin 1) fraction)) 100)
      in \<lparr>percent = Some p, remaining = Some p, used = Some (num_sub (Fin 100) p), total = Fin 100,
          resetTime = js_or (field bucket ''resetTime'') (field bucket ''reset_time''),
          modelId = mid\<rparr>)"

text \<open>\<^verbatim>\<open>if (modelId.endsWith('_vertex')) modelId = modelId.slice(0, -7)\<close>.\<close>

definition strip_vertex :: "string \<Rightarrow> string" where
  "strip_vertex s = (if endsWith s ''_vertex'' then slice_to_minus s 7 else s)"

text \<open>
  The loop over \<^verbatim>\<open>rawBuckets\<close>. \<^verbatim>\<open>bucket.modelId\<close> is a \<^verbatim>\<open>TypeError\<close>
  on a \<^verbatim>\<open>null\<close> element, and so is \<^verbatim>\<open>modelId.endsWith\<close> on a truthy model
  id that is not a string.
\<close>

fun parse_buckets :: "jsval list \<Rightarrow> thrown + bucket_item list" where
  "parse_buckets [] = Inr []"
| "parse_buckets (bucket # rest) =
     (if nullish bucket then Inl TypeError
      else
        (let raw_id = js_or (field bucket ''modelId'') (field bucket ''model_id'') in
         if \<not> truthy raw_id then parse_buckets rest
         else
           (case raw_id of
              JStr s \<Rightarrow>
                (let mid = strip_vertex s in
                 case bucket_fraction bucket of
                   None \<Rightarrow> parse_buckets rest
                 | Some fraction \<Rightarrow>
                     (case parse_buckets rest of
                        Inl e \<Rightarrow> Inl e
                      | Inr bs \<Rightarrow> Inr (bucket_of mid fraction bucket # bs)))
            | _ \<Rightarrow> Inl TypeError)))"

text \<open>\<^verbatim>\<open>geminiCliQuota.parse(data)\<close>; the result is the \<^verbatim>\<open>buckets\<close> array.\<close>

definition gemini_parse :: "jsval \<Rightarrow> thrown + bucket_item list" where
  "gemini_parse data =
     (case get_prop data ''buckets'' of
        Inl e \<Rightarrow> Inl e
      | Inr b \<Rightarrow>
          (case js_or b (JArr []) of
             JArr rawBuckets \<Rightarrow> if rawBuckets = [] then Inr [] else parse_buckets rawBuckets
           | _ \<Rightarrow> Inr []))"

section \<open>The platform\<close>

text \<open>
  What the module takes from its platform and is not its own code: the printing of
  non-integral numbers, the clock (\<^verbatim>\<open>Date.now()\<close>, in milliseconds, read once for a
  call of \<^verbatim>\<open>parse\<close>), \<^verbatim>\<open>JSON.parse\<close> and \<^verbatim>\<open>atob\<close> (\<open>None\<close> when they
  throw) and \<^verbatim>\<open>JSON.stringify\<close> (\<open>None\<close> when it throws or returns
  \<^verbatim>\<open>undefined\<close>).
\<close>

record runtime =
  frac_to_string :: "rat \<Rightarrow> string"
  date_now :: rat
  json_parse :: "string \<Rightarrow> jsval option"
  json_stringify :: "jsval \<Rightarrow> string option"
  atob :: "string \<Rightarrow> string option"

section \<open>Codex: \<^verbatim>\<open>codexQuota.parse\<close>\<close>




record windows =
  fiveHour :: jsval
  weekly :: jsval
  extra :: "jsval list"















section \<open>The wire call and the credential file\<close>

text \<open>
  The module reaches the outside through two collaborators that are not its own code:
  \<^verbatim>\<open>request.post\<close> to the management API's \<^verbatim>\<open>/v0/management/api-call\<close>
  and \<^verbatim>\<open>authFilesApi.download\<close>. Both are parameters here, and each answer may
  depend on the calls made before. A function that calls them takes the list of calls made
  so far and returns it extended.
\<close>

record ApiCallRequest =
  authIndex :: jsval
  http_method :: string
  url :: string
  header :: "(string \<times> string) list"
  req_data :: "string option"

record ApiCallResponse =
  statusCode :: jsval
  response_header :: jsval
  bodyText :: jsval
  body :: jsval

datatype call = Download jsval | ApiCall ApiCallRequest

text \<open>
  \<open>download\<close> is \<^verbatim>\<open>authFilesApi.download(name)\<close> followed by
  \<^verbatim>\<open>blob.text()\<close>; \<open>None\<close> when either rejects. \<open>post\<close> is the answer of
  \<^verbatim>\<open>request.post\<close>, a thrown value when it rejects.
\<close>

record network =
  download :: "call list \<Rightarrow> jsval \<Rightarrow> string option"
  post :: "call list \<Rightarrow> ApiCallRequest \<Rightarrow> thrown + jsval"

definition parseBody :: "runtime \<Rightarrow> jsval \<Rightarrow> jsval" where
  "parseBody rt b =
     (if nullish b then JNull
      else
        (case b of
           JStr s \<Rightarrow>
             (let trimmed = trim s in
              if trimmed = [] then JNull
              else (case json_parse rt trimmed of None \<Rightarrow> b | Some v \<Rightarrow> v))
         | _ \<Rightarrow> b))"

text \<open>\<^verbatim>\<open>apiCallApi.request\<close>; reading a property of a \<^verbatim>\<open>null\<close> answer throws.\<close>

definition apiCall :: "runtime \<Rightarrow> network \<Rightarrow> ApiCallRequest \<Rightarrow> call list \<Rightarrow> (thrown + ApiCallResponse) \<times> call list" where
  "apiCall rt net req tr =
     (case post net tr req of
        Inl e \<Rightarrow> (Inl e, tr @ [ApiCall req])
      | Inr response \<Rightarrow>
          if nullish response then (Inl TypeError, tr @ [ApiCall req])
          else
            (Inr \<lparr>statusCode = js_or (js_or (field response ''status_code'') (field response ''statusCode''))
                                 (JNum (Fin 0)),
                  response_header = js_or (js_or (field response ''header'') (field response ''headers''))
                                      (JObj []),
                  bodyText = js_or (field response ''body'') (JStr []),
                  body = parseBody rt (field response ''body'')\<rparr>,
             tr @ [ApiCall req]))"

definition normalizeText :: "jsval \<Rightarrow> string option" where
  "normalizeText v =
     (case v of
        JStr s \<Rightarrow> (let trimmed = trim s in if trimmed \<noteq> [] then Some trimmed else None)
      | _ \<Rightarrow> None)"

definition stringifyIfNeeded :: "runtime \<Rightarrow> jsval \<Rightarrow> string option" where
  "stringifyIfNeeded rt v =
     (case v of
        JNull \<Rightarrow> None
      | JUndefined \<Rightarrow> None
      | JStr s \<Rightarrow> normalizeText v
      | JNum n \<Rightarrow> Some (to_string (frac_to_string rt) v)
      | JBool b \<Rightarrow> Some (to_string (frac_to_string rt) v)
      | _ \<Rightarrow> (case json_stringify rt v of None \<Rightarrow> None | Some s \<Rightarrow> normalizeText (JStr s)))"

text \<open>\<^verbatim>\<open>Number.isFinite(n) && n > 0\<close> on a number; a value that is not a number is
  not finite.\<close>

definition positive_finite :: "jsnum \<Rightarrow> bool" where
  "positive_finite n = (is_finite n \<and> num_gt n (Fin 0))"

definition resolveStatusCode :: "ApiCallResponse \<Rightarrow> jsnum option" where
  "resolveStatusCode result =
     (let direct = (case statusCode result of
                      JNum n \<Rightarrow> if positive_finite n then Some n else None
                    | _ \<Rightarrow> None)
      in case direct of
           Some n \<Rightarrow> Some n
         | None \<Rightarrow>
             (let bodyStatus = opt_field (body result) ''status'';
                  parsedStatus = (case bodyStatus of JNum m \<Rightarrow> m | _ \<Rightarrow> parseFloat bodyStatus)
              in if positive_finite parsedStatus then Some parsedStatus else None))"

definition getOriginalErrorText :: "runtime \<Rightarrow> ApiCallResponse \<Rightarrow> string option" where
  "getOriginalErrorText rt result =
     (case stringifyIfNeeded rt (bodyText result) of
        Some t \<Rightarrow> if t \<noteq> [] then Some t else stringifyIfNeeded rt (body result)
      | None \<Rightarrow> stringifyIfNeeded rt (body result))"

text \<open>The template \<^verbatim>\<open>statusCode ? `HTTP ${statusCode}` : 'HTTP error'\<close>.\<close>

definition http_prefix :: "runtime \<Rightarrow> jsnum option \<Rightarrow> string" where
  "http_prefix rt sc =
     (case sc of
        None \<Rightarrow> ''HTTP error''
      | Some n \<Rightarrow> if truthy (JNum n) then ''HTTP '' @ show_num (frac_to_string rt) n else ''HTTP error'')"

definition errorObj_of :: "ApiCallResponse \<Rightarrow> jsval" where
  "errorObj_of result =
     (if truthy (body result) \<and> typeof_object (body result) \<and> truthy (field (body result) ''error'')
         \<and> typeof_object (field (body result) ''error'')
      then field (body result) ''error'' else JNull)"

definition formatNon2xxError :: "runtime \<Rightarrow> ApiCallResponse \<Rightarrow> string" where
  "formatNon2xxError rt result =
     (let sc = resolveStatusCode result;
          errorObj = errorObj_of result;
          fallback = (case getOriginalErrorText rt result of
                        None \<Rightarrow> http_prefix rt sc
                      | Some t \<Rightarrow> if t \<noteq> [] then t else http_prefix rt sc)
      in if truthy errorObj then
           (let errorCode = normalizeText (field errorObj ''code'');
                msg = normalizeText (field errorObj ''message'');
                pre = http_prefix rt sc
            in case (errorCode, msg) of
                 (Some c, Some m) \<Rightarrow> pre @ '' '' @ c @ '': '' @ m
               | (Some c, None) \<Rightarrow> pre @ '' '' @ c
               | (None, Some m) \<Rightarrow> pre @ '': '' @ m
               | (None, None) \<Rightarrow> fallback)
         else fallback)"

definition createNon2xxError :: "runtime \<Rightarrow> ApiCallResponse \<Rightarrow> thrown" where
  "createNon2xxError rt result =
     Error (formatNon2xxError rt result)
       (case resolveStatusCode result of
          None \<Rightarrow> None
        | Some n \<Rightarrow> if truthy (JNum n) then Some n else None)"

text \<open>\<^verbatim>\<open>downloadAuthFileJson\<close> never throws: every failure is \<^verbatim>\<open>null\<close>.\<close>

definition downloadAuthFileJson :: "runtime \<Rightarrow> network \<Rightarrow> jsval \<Rightarrow> call list \<Rightarrow> jsval \<times> call list" where
  "downloadAuthFileJson rt net fileName tr =
     (case download net tr fileName of
        None \<Rightarrow> (JNull, tr @ [Download fileName])
      | Some t \<Rightarrow>
          (let trimmed = trim t in
           if trimmed = [] then (JNull, tr @ [Download fileName])
           else
             (case json_parse rt trimmed of
                None \<Rightarrow> (JNull, tr @ [Download fileName])
              | Some v \<Rightarrow> (v, tr @ [Download fileName]))))"

definition DEFAULT_ANTIGRAVITY_PROJECT_ID :: string where
  "DEFAULT_ANTIGRAVITY_PROJECT_ID = ''bamboo-precept-lgxtn''"

text \<open>\<^verbatim>\<open>typeof v === 'string' && v.trim()\<close>, giving \<^verbatim>\<open>v.trim()\<close>.\<close>

definition trimmed_string :: "jsval \<Rightarrow> string option" where
  "trimmed_string v = normalizeText v"

definition project_id_in :: "jsval \<Rightarrow> string option" where
  "project_id_in obj = trimmed_string (js_nc (field obj ''project_id'') (field obj ''projectId''))"

definition resolveAntigravityProjectId :: "runtime \<Rightarrow> network \<Rightarrow> jsval \<Rightarrow> call list \<Rightarrow> string \<times> call list" where
  "resolveAntigravityProjectId rt net fileName tr =
     (let (parsed, tr') = downloadAuthFileJson rt net fileName tr in
      if \<not> truthy parsed \<or> \<not> typeof_object parsed then (DEFAULT_ANTIGRAVITY_PROJECT_ID, tr')
      else
        (case project_id_in parsed of
           Some p \<Rightarrow> (p, tr')
         | None \<Rightarrow>
             (let installed = field parsed ''installed'';
                  from_installed = (if truthy installed \<and> typeof_object installed
                                    then project_id_in installed else None)
              in case from_installed of
                   Some p \<Rightarrow> (p, tr')
                 | None \<Rightarrow>
                     (let web = field parsed ''web'';
                          from_web = (if truthy web \<and> typeof_object web then project_id_in web else None)
                      in case from_web of
                           Some p \<Rightarrow> (p, tr')
                         | None \<Rightarrow> (DEFAULT_ANTIGRAVITY_PROJECT_ID, tr')))))"

text \<open>
  \<^verbatim>\<open>account.match(/\(([^()]+)\)/)\<close>: the pattern has no \<^verbatim>\<open>g\<close> flag, so the
  match is the leftmost one. At an opening parenthesis the greedy class takes every
  following character that is not a parenthesis; the match succeeds there exactly when
  that run is not empty and a closing parenthesis follows it. The result is the captured
  group.
\<close>

definition not_paren :: "char \<Rightarrow> bool" where
  "not_paren c = (c \<noteq> CHR ''('' \<and> c \<noteq> CHR '')'')"

fun match_paren_group :: "string \<Rightarrow> string option" where
  "match_paren_group [] = None"
| "match_paren_group (c # s) =
     (if c = CHR ''('' \<and> takeWhile not_paren s \<noteq> []
         \<and> (case dropWhile not_paren s of [] \<Rightarrow> False | d # _ \<Rightarrow> d = CHR '')'')
      then Some (takeWhile not_paren s)
      else match_paren_group s)"

definition resolveGeminiCliProjectId :: "runtime \<Rightarrow> network \<Rightarrow> jsval \<Rightarrow> call list \<Rightarrow> string option \<times> call list" where
  "resolveGeminiCliProjectId rt net fileName tr =
     (let (parsed, tr') = downloadAuthFileJson rt net fileName tr in
      if \<not> truthy parsed \<or> \<not> typeof_object parsed then (None, tr')
      else
        (case field parsed ''account'' of
           JStr account \<Rightarrow> (match_paren_group account, tr')
         | _ \<Rightarrow> (None, tr')))"

section \<open>The Codex account id\<close>

text \<open>\<^verbatim>\<open>token.split('.')\<close>.\<close>

fun split_dots :: "string \<Rightarrow> string list" where
  "split_dots [] = [[]]"
| "split_dots (c # s) =
     (if c = CHR ''.'' then [] # split_dots s
      else (case split_dots s of [] \<Rightarrow> [[c]] | p # ps \<Rightarrow> (c # p) # ps))"










section \<open>The three \<^verbatim>\<open>fetch\<close> functions and the dispatch\<close>

text \<open>\<^verbatim>\<open>v >= 200 && v < 300\<close> and \<^verbatim>\<open>v < 200 || v >= 300\<close> on any value.\<close>

definition is_2xx :: "jsval \<Rightarrow> bool" where
  "is_2xx v = (num_ge (to_number v) (Fin 200) \<and> num_lt (to_number v) (Fin 300))"

definition is_non2xx :: "jsval \<Rightarrow> bool" where
  "is_non2xx v = (num_lt (to_number v) (Fin 200) \<or> num_ge (to_number v) (Fin 300))"

definition URLS :: "string list" where
  "URLS =
     [''https://daily-cloudcode-pa.googleapis.com/v1internal:fetchAvailableModels'',
      ''https://daily-cloudcode-pa.sandbox.googleapis.com/v1internal:fetchAvailableModels'',
      ''https://cloudcode-pa.googleapis.com/v1internal:fetchAvailableModels'']"

text \<open>\<^verbatim>\<open>error instanceof Error ? error : new Error(String(error))\<close>.\<close>

definition as_error :: "runtime \<Rightarrow> thrown \<Rightarrow> thrown" where
  "as_error rt e = (case e of Thrown v \<Rightarrow> Error (to_string (frac_to_string rt) v) None | _ \<Rightarrow> e)"

text \<open>
  What one turn of the loop over \<^verbatim>\<open>URLS\<close> makes of an answer: the parsed groups
  (the \<^verbatim>\<open>return\<close>), or the new \<^verbatim>\<open>lastError\<close>. The call of
  \<^verbatim>\<open>this.parse\<close> stands inside the \<^verbatim>\<open>try\<close>, so what it throws is caught
  like a transport error.
\<close>

definition attempt_outcome :: "runtime \<Rightarrow> thrown + ApiCallResponse \<Rightarrow> thrown + group_item list" where
  "attempt_outcome rt answer =
     (case answer of
        Inl e \<Rightarrow> Inl (as_error rt e)
      | Inr result \<Rightarrow>
          if is_2xx (statusCode result) \<and> truthy (body result) then
            (case antigravity_parse (body result) of
               Inl e \<Rightarrow> Inl (as_error rt e)
             | Inr gs \<Rightarrow> Inr gs)
          else if is_non2xx (statusCode result) then Inl (createNon2xxError rt result)
          else
            Inl (Error (to_string (frac_to_string rt)
                          (js_or (bodyText result)
                             (JStr (''HTTP '' @ to_string (frac_to_string rt) (statusCode result)))))
                   None))"

definition antigravity_request :: "jsval \<Rightarrow> string option \<Rightarrow> string \<Rightarrow> ApiCallRequest" where
  "antigravity_request ai requestBody u =
     \<lparr>authIndex = ai, http_method = ''POST'', url = u,
      header = [(''Authorization'', ''Bearer $TOKEN$''), (''Content-Type'', ''application/json''),
                (''User-Agent'', ''antigravity/1.11.5 windows/amd64'')],
      req_data = requestBody\<rparr>"

fun try_urls :: "runtime \<Rightarrow> network \<Rightarrow> jsval \<Rightarrow> string option \<Rightarrow> thrown option \<Rightarrow> string list \<Rightarrow> call list
    \<Rightarrow> (thrown + group_item list) \<times> call list" where
  "try_urls rt net ai requestBody lastError [] tr =
     (Inl (case lastError of None \<Rightarrow> Error ''Failed to fetch Antigravity quota'' None | Some e \<Rightarrow> e), tr)"
| "try_urls rt net ai requestBody lastError (u # us) tr =
     (let (answer, tr') = apiCall rt net (antigravity_request ai requestBody u) tr in
      case attempt_outcome rt answer of
        Inr gs \<Rightarrow> (Inr gs, tr')
      | Inl e \<Rightarrow> try_urls rt net ai requestBody (Some e) us tr')"

text \<open>
  \<^verbatim>\<open>antigravityQuota.fetch\<close>. For the objects the module serializes,
  \<^verbatim>\<open>JSON.stringify\<close> neither throws nor returns \<^verbatim>\<open>undefined\<close>.
\<close>

definition antigravity_fetch :: "runtime \<Rightarrow> network \<Rightarrow> jsval \<Rightarrow> call list \<Rightarrow> (thrown + group_item list) \<times> call list" where
  "antigravity_fetch rt net file tr =
     (if nullish file then (Inl TypeError, tr)
      else
        (let ai = js_or (field file ''authIndex'') (field file ''auth_index'');
             (projectId, tr') = resolveAntigravityProjectId rt net (field file ''name'') tr;
             requestBody = json_stringify rt (JObj [(''project'', JStr projectId)])
         in try_urls rt net ai requestBody None URLS tr'))"

definition gemini_request :: "jsval \<Rightarrow> string option \<Rightarrow> ApiCallRequest" where
  "gemini_request ai d =
     \<lparr>authIndex = ai, http_method = ''POST'',
      url = ''https://cloudcode-pa.googleapis.com/v1internal:retrieveUserQuota'',
      header = [(''Authorization'', ''Bearer $TOKEN$''), (''Content-Type'', ''application/json'')],
      req_data = d\<rparr>"

definition gemini_fetch :: "runtime \<Rightarrow> network \<Rightarrow> jsval \<Rightarrow> call list \<Rightarrow> (thrown + bucket_item list) \<times> call list" where
  "gemini_fetch rt net file tr =
     (if nullish file then (Inl TypeError, tr)
      else
        (let ai = js_or (field file ''authIndex'') (field file ''auth_index'');
             (projectId, tr') = resolveGeminiCliProjectId rt net (field file ''name'') tr;
             d = (case projectId of
                    None \<Rightarrow> json_stringify rt (JObj [])
                  | Some p \<Rightarrow>
                      if p \<noteq> [] then json_stringify rt (JObj [(''project'', JStr p)])
                      else json_stringify rt (JObj []));
             (answer, tr'') = apiCall rt net (gemini_request ai d) tr'
         in case answer of
              Inl e \<Rightarrow> (Inl e, tr'')
            | Inr result \<Rightarrow>
                if is_non2xx (statusCode result) then (Inl (createNon2xxError rt result), tr'')
                else (gemini_parse (body result), tr'')))"







section \<open>Notions of the specification\<close>









text \<open>
  Parenthesized groups of a string, said without the matcher: a string has a group when it
  is \<open>pre @ "(" @ g @ ")" @ suf\<close> for a non-empty \<open>g\<close> without parentheses, and
  \<open>g\<close> is its leftmost group when no group lies in \<open>pre\<close>.
\<close>

definition has_group :: "string \<Rightarrow> bool" where
  "has_group s = (\<exists>pre g suf. s = pre @ ''('' @ g @ '')'' @ suf \<and> g \<noteq> [] \<and> list_all not_paren g)"

definition leftmost_group :: "string \<Rightarrow> string \<Rightarrow> bool" where
  "leftmost_group s g =
     (\<exists>pre suf. s = pre @ ''('' @ g @ '')'' @ suf \<and> g \<noteq> [] \<and> list_all not_paren g \<and> \<not> has_group pre)"

text \<open>The object that \<^verbatim>\<open>geminiCliQuota.fetch\<close> serializes as the request body.\<close>

definition project_body :: "string option \<Rightarrow> jsval" where
  "project_body pid = (case pid of None \<Rightarrow> JObj [] | Some g \<Rightarrow> JObj [(''project'', JStr g)])"

text \<open>
  The two texts a message is built from: \<^verbatim>\<open>HTTP <code>\<close> for the resolved status
  code, and the raw text of the answer with the status text as its fallback.
\<close>

definition status_text :: "runtime \<Rightarrow> ApiCallResponse \<Rightarrow> string" where
  "status_text rt result =
     (case resolveStatusCode result of
        None \<Rightarrow> ''HTTP error''
      | Some n \<Rightarrow> ''HTTP '' @ show_num (frac_to_string rt) n)"

definition raw_text :: "runtime \<Rightarrow> ApiCallResponse \<Rightarrow> string" where
  "raw_text rt result =
     (case getOriginalErrorText rt result of
        None \<Rightarrow> status_text rt result
      | Some t \<Rightarrow> if t \<noteq> [] then t else status_text rt result)"

text \<open>
  The outcomes of the attempts when every address of a list is called in order, each after
  all the calls before it.
\<close>

fun attempts :: "runtime \<Rightarrow> network \<Rightarrow> jsval \<Rightarrow> string option \<Rightarrow> string list \<Rightarrow> call list
    \<Rightarrow> (thrown + group_item list) list" where
  "attempts rt net ai requestBody [] tr = []"
| "attempts rt net ai requestBody (u # us) tr =
     attempt_outcome rt (fst (apiCall rt net (antigravity_request ai requestBody u) tr))
       # attempts rt net ai requestBody us (tr @ [ApiCall (antigravity_request ai requestBody u)])"

text \<open>The calls that the attempts on a list of addresses make, in order.\<close>

definition calls_of :: "jsval \<Rightarrow> string option \<Rightarrow> string list \<Rightarrow> call list" where
  "calls_of ai requestBody us = map (\<lambda>u. ApiCall (antigravity_request ai requestBody u)) us"

text \<open>The number of failed attempts before the first success; the number of all attempts
  when none succeeds.\<close>

definition first_success :: "(thrown + group_item list) list \<Rightarrow> nat" where
  "first_success outs = length (takeWhile isl outs)"

section \<open>A reference platform for the examples\<close>

text \<open>
  The theorems below hold for every platform. The examples are run on this one: its
  \<^verbatim>\<open>atob\<close> is the forgiving Base64 decoder of the HTML standard, its
  \<^verbatim>\<open>JSON.parse\<close> a recursive-descent reader of JSON texts whose characters fit
  the 8-bit strings of the model (a later duplicate key replaces the value of the earlier
  one; integer-like keys are not moved to the front), its \<^verbatim>\<open>JSON.stringify\<close> the
  compact printer, and non-integral numbers print as a decimal expansion of at most 17
  fraction digits.
\<close>

definition b64_val :: "char \<Rightarrow> nat option" where
  "b64_val c =
     (let n = (of_char c :: nat) in
      if 65 \<le> n \<and> n \<le> 90 then Some (n - 65)
      else if 97 \<le> n \<and> n \<le> 122 then Some (n - 71)
      else if 48 \<le> n \<and> n \<le> 57 then Some (n + 4)
      else if n = 43 then Some 62
      else if n = 47 then Some 63
      else None)"

fun b64_bytes :: "nat list \<Rightarrow> string" where
  "b64_bytes (a # b # c # d # rest) =
     char_of (a * 4 + b div 16) # char_of ((b mod 16) * 16 + c div 4) # char_of ((c mod 4) * 64 + d)
       # b64_bytes rest"
| "b64_bytes [a, b, c] = [char_of (a * 4 + b div 16), char_of ((b mod 16) * 16 + c div 4)]"
| "b64_bytes [a, b] = [char_of (a * 4 + b div 16)]"
| "b64_bytes _ = []"

definition b64_ws :: "char \<Rightarrow> bool" where
  "b64_ws c = ((of_char c :: nat) \<in> {9, 10, 12, 13, 32})"

definition strip_padding :: "string \<Rightarrow> string" where
  "strip_padding s =
     (if length s mod 4 = 0 \<and> s \<noteq> [] \<and> last s = CHR ''='' then
        (let t = butlast s in if t \<noteq> [] \<and> last t = CHR ''='' then butlast t else t)
      else s)"

definition atob_std :: "string \<Rightarrow> string option" where
  "atob_std s =
     (let t = strip_padding (filter (\<lambda>c. \<not> b64_ws c) s) in
      if length t mod 4 = 1 \<or> (\<exists>c \<in> set t. b64_val c = None) then None
      else Some (b64_bytes (map (\<lambda>c. the (b64_val c)) t)))"

definition json_ws :: "char \<Rightarrow> bool" where
  "json_ws c = ((of_char c :: nat) \<in> {9, 10, 13, 32})"

definition hex4 :: "string \<Rightarrow> nat option" where
  "hex4 s =
     (if length s = 4 \<and> (\<forall>c \<in> set s. radix_digit c \<noteq> None)
      then Some (foldl (\<lambda>a c. 16 * a + the (radix_digit c)) 0 s) else None)"

text \<open>The characters of a JSON string after its opening quote, and the rest of the text.\<close>

fun json_string_body :: "string \<Rightarrow> (string \<times> string) option" where
  "json_string_body [] = None"
| "json_string_body (c # s) =
     (if c = CHR ''\"'' then Some ([], s)
      else if c = CHR 0x5C then
        (case s of
           [] \<Rightarrow> None
         | e # t \<Rightarrow>
             if e = CHR ''u'' then
               (case hex4 (take 4 t) of
                  None \<Rightarrow> None
                | Some n \<Rightarrow>
                    if n < 256 then map_option (\<lambda>(x, r). (char_of n # x, r)) (json_string_body (drop 4 t))
                    else None)
             else
               (case map_of [(CHR ''\"'', CHR ''\"''), (CHR 0x5C, CHR 0x5C), (CHR ''/'', CHR ''/''),
                             (CHR ''b'', CHR 0x08), (CHR ''f'', CHR 0x0C), (CHR ''n'', CHR 0x0A),
                             (CHR ''r'', CHR 0x0D), (CHR ''t'', CHR 0x09)] e of
                  None \<Rightarrow> None
                | Some x \<Rightarrow> map_option (\<lambda>(y, r). (x # y, r)) (json_string_body t)))
      else if (of_char c :: nat) < 32 then None
      else map_option (\<lambda>(x, r). (c # x, r)) (json_string_body s))"

text \<open>A JSON number: no plus sign, no leading zero, digits on both sides of the point.\<close>

definition json_number :: "string \<Rightarrow> (jsnum \<times> string) option" where
  "json_number s =
     (let u = (case s of [] \<Rightarrow> s | c # t \<Rightarrow> if c = CHR ''-'' then t else s);
          ip = takeWhile is_digit u;
          r1 = dropWhile is_digit u
      in if ip = [] \<or> (length ip > 1 \<and> hd ip = CHR ''0'') then None
         else if (case r1 of [] \<Rightarrow> False | c # t \<Rightarrow> c = CHR ''.'' \<and> takeWhile is_digit t = []) then None
         else parse_signed s)"

text \<open>\<^verbatim>\<open>obj[k] = v\<close> while an object is read.\<close>

fun obj_set :: "(string \<times> jsval) list \<Rightarrow> string \<Rightarrow> jsval \<Rightarrow> (string \<times> jsval) list" where
  "obj_set [] k v = [(k, v)]"
| "obj_set ((k', v') # kvs) k v = (if k' = k then (k, v) # kvs else (k', v') # obj_set kvs k v)"

text \<open>
  The reader, with fuel: every call uses one unit, and a text of \<open>n\<close> characters needs at
  most \<open>n + 1\<close> calls.
\<close>

fun json_value :: "nat \<Rightarrow> string \<Rightarrow> (jsval \<times> string) option"
  and json_elements :: "nat \<Rightarrow> string \<Rightarrow> (jsval list \<times> string) option"
  and json_members :: "nat \<Rightarrow> (string \<times> jsval) list \<Rightarrow> string \<Rightarrow> ((string \<times> jsval) list \<times> string) option"
where
  "json_value 0 s = None"
| "json_value (Suc n) s =
     (let t = dropWhile json_ws s in
      if take 4 t = ''null'' then Some (JNull, drop 4 t)
      else if take 4 t = ''true'' then Some (JBool True, drop 4 t)
      else if take 5 t = ''false'' then Some (JBool False, drop 5 t)
      else
        (case t of
           [] \<Rightarrow> None
         | c # u \<Rightarrow>
             if c = CHR ''\"'' then map_option (\<lambda>(x, r). (JStr x, r)) (json_string_body u)
             else if c = CHR ''['' then
               (case dropWhile json_ws u of
                  [] \<Rightarrow> None
                | d # r \<Rightarrow>
                    if d = CHR '']'' then Some (JArr [], r)
                    else map_option (\<lambda>(xs, r'). (JArr xs, r')) (json_elements n u))
             else if c = CHR ''{'' then
               (case dropWhile json_ws u of
                  [] \<Rightarrow> None
                | d # r \<Rightarrow>
                    if d = CHR ''}'' then Some (JObj [], r)
                    else map_option (\<lambda>(kvs, r'). (JObj kvs, r')) (json_members n [] u))
             else map_option (\<lambda>(x, r). (JNum x, r)) (json_number t)))"
| "json_elements 0 s = None"
| "json_elements (Suc n) s =
     (case json_value n s of
        None \<Rightarrow> None
      | Some (v, r) \<Rightarrow>
          (case dropWhile json_ws r of
             [] \<Rightarrow> None
           | c # r' \<Rightarrow>
               if c = CHR '','' then map_option (\<lambda>(vs, r''). (v # vs, r'')) (json_elements n r')
               else if c = CHR '']'' then Some ([v], r')
               else None))"
| "json_members 0 acc s = None"
| "json_members (Suc n) acc s =
     (case dropWhile json_ws s of
        [] \<Rightarrow> None
      | q # u \<Rightarrow>
          if q \<noteq> CHR ''\"'' then None
          else
            (case json_string_body u of
               None \<Rightarrow> None
             | Some (k, r) \<Rightarrow>
                 (case dropWhile json_ws r of
                    [] \<Rightarrow> None
                  | c # r' \<Rightarrow>
                      if c \<noteq> CHR '':'' then None
                      else
                        (case json_value n r' of
                           None \<Rightarrow> None
                         | Some (v, r'') \<Rightarrow>
                             (case dropWhile json_ws r'' of
                                [] \<Rightarrow> None
                              | d # r3 \<Rightarrow>
                                  if d = CHR '','' then json_members n (obj_set acc k v) r3
                                  else if d = CHR ''}'' then Some (obj_set acc k v, r3)
                                  else None)))))"

definition json_parse_std :: "string \<Rightarrow> jsval option" where
  "json_parse_std s =
     (case json_value (length s + 1) s of
        None \<Rightarrow> None
      | Some (v, r) \<Rightarrow> if dropWhile json_ws r = [] then Some v else None)"

definition hex_digit :: "nat \<Rightarrow> char" where
  "hex_digit n = (if n < 10 then char_of (48 + n) else char_of (87 + n))"

definition json_escape :: "char \<Rightarrow> string" where
  "json_escape c =
     (let n = (of_char c :: nat) in
      if c = CHR ''\"'' then [CHR 0x5C, CHR ''\"'']
      else if c = CHR 0x5C then [CHR 0x5C, CHR 0x5C]
      else if n = 8 then [CHR 0x5C, CHR ''b'']
      else if n = 9 then [CHR 0x5C, CHR ''t'']
      else if n = 10 then [CHR 0x5C, CHR ''n'']
      else if n = 12 then [CHR 0x5C, CHR ''f'']
      else if n = 13 then [CHR 0x5C, CHR ''r'']
      else if n < 32 then [CHR 0x5C, CHR ''u'', CHR ''0'', CHR ''0'', hex_digit (n div 16), hex_digit (n mod 16)]
      else [c])"

definition json_quote :: "string \<Rightarrow> string" where
  "json_quote s = CHR ''\"'' # concat (map json_escape s) @ [CHR ''\"'']"

text \<open>The fraction digits of \<open>r\<close>, \<open>0 \<le> r < 1\<close>, at most \<open>n\<close> of them.\<close>

fun fraction_digits :: "nat \<Rightarrow> rat \<Rightarrow> string" where
  "fraction_digits 0 r = []"
| "fraction_digits (Suc n) r =
     (if r = 0 then []
      else char_of (48 + nat \<lfloor>r * 10\<rfloor>) # fraction_digits n (r * 10 - of_int \<lfloor>r * 10\<rfloor>))"

definition decimal_string :: "rat \<Rightarrow> string" where
  "decimal_string r =
     (if r < 0 then ''-'' else []) @ dec_digits (nat \<lfloor>\<bar>r\<bar>\<rfloor>) @
     (case fraction_digits 17 (\<bar>r\<bar> - of_int \<lfloor>\<bar>r\<bar>\<rfloor>) of [] \<Rightarrow> [] | ds \<Rightarrow> CHR ''.'' # ds)"

text \<open>
  \<^verbatim>\<open>JSON.stringify\<close>: \<open>None\<close> is its \<^verbatim>\<open>undefined\<close>; in an array
  \<^verbatim>\<open>undefined\<close> prints as \<^verbatim>\<open>null\<close>, in an object the property is left out;
  a number that is not finite prints as \<^verbatim>\<open>null\<close>.
\<close>

fun json_text :: "jsval \<Rightarrow> string option" where
  "json_text JUndefined = None"
| "json_text JNull = Some ''null''"
| "json_text (JBool b) = Some (if b then ''true'' else ''false'')"
| "json_text (JNum n) = Some (if is_finite n then show_num decimal_string n else ''null'')"
| "json_text (JStr s) = Some (json_quote s)"
| "json_text (JArr xs) =
     Some (''['' @ join_commas (map (\<lambda>x. case json_text x of None \<Rightarrow> ''null'' | Some t \<Rightarrow> t) xs) @ '']'')"
| "json_text (JObj kvs) =
     Some (''{'' @ join_commas (concat (map (\<lambda>(k, v). case json_text v of None \<Rightarrow> []
                                  | Some t \<Rightarrow> [json_quote k @ '':'' @ t]) kvs)) @ ''}'')"

definition example_platform :: runtime where
  "example_platform =
     \<lparr>frac_to_string = decimal_string, date_now = 1767225600000,
      json_parse = json_parse_std, json_stringify = json_text, atob = atob_std\<rparr>"

text \<open>
  A network whose answers do not depend on the calls made before: the text of each stored
  file, and the answer to a call of each upstream address; any other download fails, any
  other call is a transport error.
\<close>

definition static_network :: "(string \<times> string) list \<Rightarrow> (string \<times> (thrown + jsval)) list \<Rightarrow> network" where
  "static_network files answers =
     \<lparr>download = (\<lambda>tr n. case n of JStr s \<Rightarrow> map_of files s | _ \<Rightarrow> None),
      post = (\<lambda>tr req. case map_of answers (url req) of
                          None \<Rightarrow> Inl (Error ''Network Error'' None)
                        | Some a \<Rightarrow> a)\<rparr>"

section \<open>Examples\<close>








definition example_files :: "(string \<times> string) list" where
  "example_files =
     [(''two-groups.json'', ''{\"type\":\"gemini\",\"account\":\"user@example.com (p1) (p2)\"}''),
      (''no-group.json'', ''{\"type\":\"gemini\",\"account\":\"user@example.com\"}'')]"

definition gemini_network :: network where
  "gemini_network =
     static_network example_files
       [(''https://cloudcode-pa.googleapis.com/v1internal:retrieveUserQuota'',
         Inr (JObj [(''status_code'', JNum (Fin 200)),
                    (''body'', JStr ''{\"buckets\":[{\"modelId\":\"gemini-pro_vertex\",\"remainingFraction\":0.5}]}'')]))]"

definition two_groups_file :: jsval where
  "two_groups_file = JObj [(''name'', JStr ''two-groups.json''), (''type'', JStr ''gemini-cli''), (''authIndex'', JStr ''7'')]"

definition no_group_file :: jsval where
  "no_group_file = JObj [(''name'', JStr ''no-group.json''), (''type'', JStr ''gemini-cli''), (''authIndex'', JStr ''8'')]"

text \<open>Three answers: a structured error, an error object without parts, and an answer with
  neither status nor body.\<close>

definition quota_exceeded :: ApiCallResponse where
  "quota_exceeded =
     \<lparr>statusCode = JNum (Fin 429), response_header = JObj [],
      bodyText = JStr ''{\"error\":{\"code\":\"RESOURCE_EXHAUSTED\",\"message\":\"Quota exceeded\"}}'',
      body = JObj [(''error'', JObj [(''code'', JStr ''RESOURCE_EXHAUSTED''),
                                     (''message'', JStr ''Quota exceeded'')])]\<rparr>"

definition empty_error :: ApiCallResponse where
  "empty_error =
     \<lparr>statusCode = JNum (Fin 500), response_header = JObj [],
      bodyText = JStr ''{\"error\":{}}'', body = JObj [(''error'', JObj [])]\<rparr>"

definition no_status :: ApiCallResponse where
  "no_status = \<lparr>statusCode = JNum (Fin 0), response_header = JObj [], bodyText = JStr [], body = JNull\<rparr>"

text \<open>
  An Antigravity credential and three networks: one whose first two addresses answer 500
  and whose third answers 200 with a body of models; one where every attempt fails (a
  status 500, a transport error that is not an \<^verbatim>\<open>Error\<close>, an empty body); and
  one whose first address answers 200 with a body on which \<^verbatim>\<open>parse\<close> throws.
\<close>

definition antigravity_file :: jsval where
  "antigravity_file = JObj [(''name'', JStr ''antigravity.json''), (''type'', JStr ''antigravity''),
                            (''authIndex'', JStr ''3'')]"

definition antigravity_files :: "(string \<times> string) list" where
  "antigravity_files = [(''antigravity.json'', ''{\"project_id\":\"my-project\"}'')]"

definition models_text :: string where
  "models_text = ''{\"models\":{\"gemini-3-pro-high\":{\"quotaInfo\":{\"remainingFraction\":0.9}},'' @
     ''\"m2\":{\"displayName\":\"Gemini-3-Pro-Low\",\"quotaInfo\":{\"remainingFraction\":0.2,'' @
     ''\"resetTime\":\"2026-01-01T00:00:00Z\"}},'' @
     ''\"gemini-2.5-flash\":{\"quotaInfo\":{\"remainingFraction\":\"30%\"}}}}''"

definition answer_of :: "rat \<Rightarrow> string \<Rightarrow> thrown + jsval" where
  "answer_of status text = Inr (JObj [(''status_code'', JNum (Fin status)), (''body'', JStr text)])"

definition third_url_network :: network where
  "third_url_network =
     static_network antigravity_files
       [(URLS ! 0, answer_of 500 ''{\"error\":{\"code\":\"INTERNAL\",\"message\":\"backend error\"}}''),
        (URLS ! 1, answer_of 500 ''unavailable''),
        (URLS ! 2, answer_of 200 models_text)]"

definition failing_network :: network where
  "failing_network =
     static_network antigravity_files
       [(URLS ! 0, answer_of 500 ''unavailable''),
        (URLS ! 1, Inl (Thrown (JStr ''timeout''))),
        (URLS ! 2, answer_of 200 [])]"

definition throwing_network :: network where
  "throwing_network =
     static_network antigravity_files
       [(URLS ! 0, answer_of 200 ''{\"models\":{\"x\":{\"displayName\":5}}}''),
        (URLS ! 1, answer_of 200 ''{\"models\":{}}''),
        (URLS ! 2, answer_of 500 ''unavailable'')]"

definition project_request :: "string \<Rightarrow> ApiCallRequest" where
  "project_request u = antigravity_request (JStr ''3'') (Some ''{\"project\":\"my-project\"}'') u"

definition example_groups :: "group_item list" where
  "example_groups =
     [\<lparr>percent = Some (Fin 20), remaining = Some (Fin 20), used = Some (Fin 80), total = Fin 100,
       resetTime = JStr ''2026-01-01T00:00:00Z'', name = ''Gemini 3 Pro'', hideInTable = False\<rparr>,
      \<lparr>percent = Some (Fin 30), remaining = Some (Fin 30), used = Some (Fin 70), total = Fin 100,
       resetTime = JUndefined, name = ''Gemini 2.5 Flash'', hideInTable = False\<rparr>]"




section \<open>Proofs\<close>

subsection \<open>Numbers\<close>







subsection \<open>Items of the Antigravity parser\<close>










subsection \<open>Items of the Gemini CLI and Codex parsers\<close>














subsection \<open>Inputs without items\<close>

lemma parse_groups_no_models: "parse_groups (JObj []) modelGroups = Inr []"
  by code_simp

lemma antigravity_parse_no_object:
  assumes "\<not> nullish data" "\<forall>kvs. field data ''models'' \<noteq> JObj kvs"
  shows "antigravity_parse data = Inr []"
proof (cases "truthy (field data ''models'')")
  case True
  with assms show ?thesis
    by (cases "field data ''models''") (auto simp: antigravity_parse_def get_prop_def js_or_def)
next
  case False
  with assms(1) show ?thesis
    by (simp add: antigravity_parse_def get_prop_def js_or_def parse_groups_no_models)
qed

lemma gemini_parse_no_array:
  assumes "\<not> nullish data" "(\<forall>xs. field data ''buckets'' \<noteq> JArr xs) \<or> field data ''buckets'' = JArr []"
  shows "gemini_parse data = Inr []"
  using assms
  by (cases "field data ''buckets''") (auto simp: gemini_parse_def get_prop_def js_or_def)

text \<open>
  Claim C10. On an input that is neither \<^verbatim>\<open>null\<close> nor \<^verbatim>\<open>undefined\<close>,
  \<^verbatim>\<open>antigravityQuota.parse\<close> returns no group, without throwing, when
  \<^verbatim>\<open>models\<close> is absent or is anything but a plain object (an array included), and
  \<^verbatim>\<open>geminiCliQuota.parse\<close> returns no bucket, without throwing, when
  \<^verbatim>\<open>buckets\<close> is absent, is not an array, or is the empty array.
\<close>

theorem parse_without_items:
  assumes "\<not> nullish data"
  shows "((\<forall>kvs. field data ''models'' \<noteq> JObj kvs) \<longrightarrow> antigravity_parse data = Inr []) \<and>
         ((\<forall>xs. field data ''buckets'' \<noteq> JArr xs) \<or> field data ''buckets'' = JArr [] \<longrightarrow>
            gemini_parse data = Inr [])"
  using assms antigravity_parse_no_object gemini_parse_no_array by blast

theorem parse_without_items_witness:
  "antigravity_parse (JObj []) = Inr [] \<and>
   antigravity_parse (JObj [(''models'', JStr ''none'')]) = Inr [] \<and>
   antigravity_parse (JObj [(''models'', JArr [JObj []])]) = Inr [] \<and>
   gemini_parse (JObj []) = Inr [] \<and>
   gemini_parse (JObj [(''buckets'', JObj [(''modelId'', JStr ''m'')])]) = Inr [] \<and>
   gemini_parse (JObj [(''buckets'', JArr [])]) = Inr []"
  using parse_without_items [of "JObj []"]
    parse_without_items [of "JObj [(''models'', JStr ''none'')]"]
    parse_without_items [of "JObj [(''models'', JArr [JObj []])]"]
    parse_without_items [of "JObj [(''buckets'', JObj [(''modelId'', JStr ''m'')])]"]
    parse_without_items [of "JObj [(''buckets'', JArr [])]"]
  by (simp add: nullish_def)

subsection \<open>The minimum rule of the Antigravity groups\<close>


lemma entry_fraction_percentage:
  assumes "field qi ''remainingFraction'' = JStr s" "endsWith s ''%''" "parse_float_str s = Fin p"
  shows "entry_fraction qi = Some (Fin (p / 100))"
proof -
  have "s \<noteq> []" using assms(2) by (auto simp: endsWith_def)
  then show ?thesis using assms by (simp add: entry_fraction_def js_or_def Let_def num_div_def)
qed

lemma entry_fraction_number:
  assumes "field qi ''remainingFraction'' = JNum (Fin r)" "r \<noteq> 0"
  shows "entry_fraction qi = Some (Fin r)"
  using assms by (simp add: entry_fraction_def js_or_def Let_def)






subsection \<open>The windows of a Codex limit\<close>












subsection \<open>A zero amount in a Gemini CLI bucket\<close>

text \<open>
  Claim C9 on a bucket whose \<^verbatim>\<open>remainingAmount\<close> is the number 0. The claim
  makes an amount that is not positive a sign of exhaustion (fraction 0), and the code
  tests \<^verbatim>\<open>remainingAmount <= 0\<close> for it; but the amount is read with
  \<^verbatim>\<open>bucket.remainingAmount || bucket.remaining_amount\<close>, which takes the number 0
  for an absent field, so the bucket is dropped. The same number under
  \<^verbatim>\<open>remaining_amount\<close>, and the string \<^verbatim>\<open>"0"\<close> under
  \<^verbatim>\<open>remainingAmount\<close>, give the item with percent 0. A
  \<^verbatim>\<open>remainingFraction\<close> that is the number 0 is lost in the same way.
\<close>

theorem gemini_numeric_zero_amount_dropped:
  "gemini_parse (JObj [(''buckets'', JArr [JObj [(''modelId'', JStr ''m''), (''remainingAmount'', JNum (Fin 0))]])])
     = Inr [] \<and>
   gemini_parse (JObj [(''buckets'', JArr [JObj [(''modelId'', JStr ''m''), (''remaining_amount'', JNum (Fin 0))]])])
     = Inr [\<lparr>percent = Some (Fin 0), remaining = Some (Fin 0), used = Some (Fin 100), total = Fin 100,
             resetTime = JUndefined, modelId = ''m''\<rparr>] \<and>
   gemini_parse (JObj [(''buckets'', JArr [JObj [(''modelId'', JStr ''m''), (''remainingAmount'', JStr ''0'')]])])
     = Inr [\<lparr>percent = Some (Fin 0), remaining = Some (Fin 0), used = Some (Fin 100), total = Fin 100,
             resetTime = JUndefined, modelId = ''m''\<rparr>] \<and>
   gemini_parse (JObj [(''buckets'', JArr [JObj [(''modelId'', JStr ''m''), (''remainingFraction'', JNum (Fin 0))]])])
     = Inr []"
  by code_simp

subsection \<open>The project id of a Gemini CLI credential\<close>

lemma takeWhile_group:
  assumes "list_all not_paren g"
  shows "takeWhile not_paren (g @ CHR '')'' # suf) = g" "dropWhile not_paren (g @ CHR '')'' # suf) = CHR '')'' # suf"
  using assms by (induction g) (auto simp: not_paren_def)

lemma head_match:
  assumes "takeWhile not_paren s \<noteq> []" "dropWhile not_paren s = CHR '')'' # rest"
  shows "s = takeWhile not_paren s @ CHR '')'' # rest" "list_all not_paren (takeWhile not_paren s)"
proof -
  show "s = takeWhile not_paren s @ CHR '')'' # rest"
    using takeWhile_dropWhile_id [of not_paren s] assms(2) by simp
  show "list_all not_paren (takeWhile not_paren s)"
    by (auto simp: list_all_iff dest: set_takeWhileD)
qed

lemma has_group_Cons:
  assumes "has_group (c # s)"
  shows "(c = CHR ''('' \<and> takeWhile not_paren s \<noteq> [] \<and> (\<exists>rest. dropWhile not_paren s = CHR '')'' # rest))
         \<or> has_group s"
proof -
  from assms obtain pre g suf where d: "c # s = pre @ ''('' @ g @ '')'' @ suf" "g \<noteq> []" "list_all not_paren g"
    unfolding has_group_def by blast
  show ?thesis
  proof (cases pre)
    case Nil
    with d(1) have "c = CHR ''(''" "s = g @ CHR '')'' # suf" by simp_all
    with takeWhile_group [OF d(3), of suf] d(2) show ?thesis by simp
  next
    case (Cons c' pre')
    with d have "s = pre' @ ''('' @ g @ '')'' @ suf" by simp
    with d(2,3) have "has_group s" unfolding has_group_def by blast
    then show ?thesis ..
  qed
qed

lemma match_None: "match_paren_group s = None \<longleftrightarrow> \<not> has_group s"
proof (induction s)
  case Nil
  then show ?case by (simp add: has_group_def)
next
  case (Cons c s)
  show ?case
  proof (cases "c = CHR ''('' \<and> takeWhile not_paren s \<noteq> [] \<and> (\<exists>rest. dropWhile not_paren s = CHR '')'' # rest)")
    case True
    then obtain rest where r: "dropWhile not_paren s = CHR '')'' # rest" by blast
    from True r have "match_paren_group (c # s) = Some (takeWhile not_paren s)" by simp
    moreover have "has_group (c # s)"
      unfolding has_group_def
      using True head_match [OF _ r] by (intro exI [of _ "[]"] exI [of _ "takeWhile not_paren s"] exI [of _ rest]) auto
    ultimately show ?thesis by simp
  next
    case False
    then have m: "match_paren_group (c # s) = match_paren_group s"
      by (auto split: list.splits)
    have "has_group (c # s) \<longleftrightarrow> has_group s"
    proof
      assume "has_group (c # s)"
      from has_group_Cons [OF this] False show "has_group s" by blast
    next
      assume "has_group s"
      then obtain pre g suf where "s = pre @ ''('' @ g @ '')'' @ suf" "g \<noteq> []" "list_all not_paren g"
        unfolding has_group_def by blast
      then have "c # s = (c # pre) @ ''('' @ g @ '')'' @ suf \<and> g \<noteq> [] \<and> list_all not_paren g" by simp
      then show "has_group (c # s)" unfolding has_group_def by blast
    qed
    with m Cons.IH show ?thesis by simp
  qed
qed

lemma match_Some_leftmost:
  assumes "match_paren_group s = Some g"
  shows "leftmost_group s g"
  using assms
proof (induction s)
  case Nil
  then show ?case by simp
next
  case (Cons c s)
  show ?case
  proof (cases "c = CHR ''('' \<and> takeWhile not_paren s \<noteq> [] \<and> (\<exists>rest. dropWhile not_paren s = CHR '')'' # rest)")
    case True
    then obtain rest where r: "dropWhile not_paren s = CHR '')'' # rest" by blast
    from True r Cons.prems have g: "g = takeWhile not_paren s" by simp
    have "\<not> has_group []" by (simp add: has_group_def)
    then show ?thesis
      unfolding leftmost_group_def g
      using True head_match [OF _ r] by (intro exI [of _ "[]"] exI [of _ rest]) auto
  next
    case False
    then have "match_paren_group (c # s) = match_paren_group s"
      by (auto split: list.splits)
    with Cons have "leftmost_group s g" by simp
    then obtain pre suf where d: "s = pre @ ''('' @ g @ '')'' @ suf" "g \<noteq> []" "list_all not_paren g"
      "\<not> has_group pre"
      unfolding leftmost_group_def by blast
    have "\<not> has_group (c # pre)"
    proof
      assume "has_group (c # pre)"
      from has_group_Cons [OF this] d(4) obtain rest where
        h: "c = CHR ''(''" "takeWhile not_paren pre \<noteq> []" "dropWhile not_paren pre = CHR '')'' # rest"
        by blast
      from head_match [OF h(2,3)] have pre: "pre = takeWhile not_paren pre @ CHR '')'' # rest"
        and all: "list_all not_paren (takeWhile not_paren pre)" by simp_all
      have "s = takeWhile not_paren pre @ CHR '')'' # (rest @ ''('' @ g @ '')'' @ suf)"
        using d(1) pre by (metis append_Cons append_assoc)
      from takeWhile_group [OF all, of "rest @ ''('' @ g @ '')'' @ suf"] this
      have "takeWhile not_paren s = takeWhile not_paren pre"
        "dropWhile not_paren s = CHR '')'' # (rest @ ''('' @ g @ '')'' @ suf)" by simp_all
      with h False show False by simp
    qed
    moreover have "c # s = (c # pre) @ ''('' @ g @ '')'' @ suf" using d(1) by simp
    ultimately show ?thesis unfolding leftmost_group_def using d(2,3) by blast
  qed
qed

lemma leftmost_unique:
  assumes "leftmost_group s g"
  shows "match_paren_group s = Some g"
proof -
  from assms obtain pre suf where d: "s = pre @ ''('' @ g @ '')'' @ suf" "g \<noteq> []" "list_all not_paren g"
    "\<not> has_group pre"
    unfolding leftmost_group_def by blast
  from d(4) show ?thesis unfolding d(1)
  proof (induction pre)
    case Nil
    from takeWhile_group [OF d(3), of suf] d(2) show ?case by simp
  next
    case (Cons c pre)
    have np: "\<not> has_group pre"
    proof
      assume "has_group pre"
      then obtain p g' q where "pre = p @ ''('' @ g' @ '')'' @ q" "g' \<noteq> []" "list_all not_paren g'"
        unfolding has_group_def by blast
      then have "c # pre = (c # p) @ ''('' @ g' @ '')'' @ q \<and> g' \<noteq> [] \<and> list_all not_paren g'" by simp
      then have "has_group (c # pre)" unfolding has_group_def by blast
      with Cons.prems show False by simp
    qed
    let ?s = "pre @ ''('' @ g @ '')'' @ suf"
    have "\<not> (c = CHR ''('' \<and> takeWhile not_paren ?s \<noteq> [] \<and> (\<exists>rest. dropWhile not_paren ?s = CHR '')'' # rest))"
    proof
      assume h: "c = CHR ''('' \<and> takeWhile not_paren ?s \<noteq> [] \<and> (\<exists>rest. dropWhile not_paren ?s = CHR '')'' # rest)"
      then obtain rest where r: "dropWhile not_paren ?s = CHR '')'' # rest" by blast
      have "\<exists>x \<in> set pre. \<not> not_paren x"
      proof (rule ccontr)
        assume "\<not> (\<exists>x \<in> set pre. \<not> not_paren x)"
        then have "dropWhile not_paren ?s = dropWhile not_paren (''('' @ g @ '')'' @ suf)"
          by (simp add: dropWhile_append2)
        also have "\<dots> = ''('' @ g @ '')'' @ suf" by (simp add: not_paren_def)
        finally show False using r by simp
      qed
      then obtain x where x: "x \<in> set pre" "\<not> not_paren x" by blast
      have tw: "takeWhile not_paren ?s = takeWhile not_paren pre"
        using x by (simp add: takeWhile_append1)
      have dw: "dropWhile not_paren ?s = dropWhile not_paren pre @ ''('' @ g @ '')'' @ suf"
        using x by (simp add: dropWhile_append1)
      from \<open>\<exists>x \<in> set pre. \<not> not_paren x\<close> have ne: "dropWhile not_paren pre \<noteq> []" by (simp add: dropWhile_eq_Nil_conv)
      with dw r obtain rest' where r': "dropWhile not_paren pre = CHR '')'' # rest'"
        by (cases "dropWhile not_paren pre") auto
      from h tw have t: "takeWhile not_paren pre \<noteq> []" by simp
      from head_match [OF t r'] have "c # pre = [] @ ''('' @ takeWhile not_paren pre @ '')'' @ rest'"
        "list_all not_paren (takeWhile not_paren pre)" using h by simp_all
      with t have "has_group (c # pre)" unfolding has_group_def by blast
      with Cons.prems show False by simp
    qed
    then have "match_paren_group (c # ?s) = match_paren_group ?s"
      by (auto split: list.splits)
    with Cons.IH [OF np] show ?case by simp
  qed
qed

lemma match_iff_leftmost: "match_paren_group s = Some g \<longleftrightarrow> leftmost_group s g"
  using match_Some_leftmost leftmost_unique by blast

lemma download_trace: "snd (downloadAuthFileJson rt net n tr) = tr @ [Download n]"
  by (simp add: downloadAuthFileJson_def Let_def split: option.splits)

lemma resolve_gemini_trace: "snd (resolveGeminiCliProjectId rt net n tr) = tr @ [Download n]"
  using download_trace [of rt net n tr]
  by (auto simp: resolveGeminiCliProjectId_def Let_def split: prod.splits jsval.splits)

lemma resolve_gemini_account:
  assumes "downloadAuthFileJson rt net n tr = (parsed, tr')" "truthy parsed" "typeof_object parsed"
    "field parsed ''account'' = JStr account"
  shows "fst (resolveGeminiCliProjectId rt net n tr) = match_paren_group account"
  using assms by (simp add: resolveGeminiCliProjectId_def)

lemma resolve_gemini_none:
  assumes "downloadAuthFileJson rt net n tr = (parsed, tr')"
    "\<not> truthy parsed \<or> \<not> typeof_object parsed \<or> \<not> is_string (field parsed ''account'')"
  shows "fst (resolveGeminiCliProjectId rt net n tr) = None"
  using assms by (auto simp: resolveGeminiCliProjectId_def split: jsval.splits)

lemma match_nonempty: "match_paren_group s = Some g \<Longrightarrow> g \<noteq> []"
  using match_Some_leftmost [of s g] by (auto simp: leftmost_group_def)

lemma resolve_gemini_nonempty:
  "fst (resolveGeminiCliProjectId rt net n tr) = Some g \<Longrightarrow> g \<noteq> []"
  by (auto simp: resolveGeminiCliProjectId_def Let_def match_nonempty split: prod.splits jsval.splits if_splits)

lemma gemini_fetch_trace:
  assumes "\<not> nullish file"
  shows "snd (gemini_fetch rt net file tr) =
     tr @ [Download (field file ''name''),
           ApiCall (gemini_request (js_or (field file ''authIndex'') (field file ''auth_index''))
                      (json_stringify rt (project_body (fst (resolveGeminiCliProjectId rt net (field file ''name'') tr)))))]"
proof -
  obtain pid tr1 where r: "resolveGeminiCliProjectId rt net (field file ''name'') tr = (pid, tr1)"
    by (cases "resolveGeminiCliProjectId rt net (field file ''name'') tr")
  have tr1: "tr1 = tr @ [Download (field file ''name'')]"
    using resolve_gemini_trace [of rt net "field file ''name''" tr] r by simp
  have ne: "\<And>g. pid = Some g \<Longrightarrow> g \<noteq> []"
    using resolve_gemini_nonempty [of rt net "field file ''name''" tr] r by simp
  show ?thesis
    using assms r tr1 ne
    by (auto simp: gemini_fetch_def Let_def apiCall_def project_body_def
        split: prod.splits option.splits sum.splits)
qed

text \<open>
  Claim C6, as amended. \<^verbatim>\<open>resolveGeminiCliProjectId\<close> downloads the file once.
  When the file parses to an object whose \<^verbatim>\<open>account\<close> is a string, the result is
  the content of the leftmost parenthesized group of that string, and
  \<^verbatim>\<open>null\<close> exactly when the string has no group; in every other case (the
  download or the parse fails, the file is not an object, \<^verbatim>\<open>account\<close> is not a
  string) it is \<^verbatim>\<open>null\<close>. \<^verbatim>\<open>geminiCliQuota.fetch\<close> then makes one
  call, whose body is the serialized \<^verbatim>\<open>{project}\<close>, or the serialized empty
  object when the project id is \<^verbatim>\<open>null\<close>.
\<close>

theorem gemini_project_id_leftmost_group:
  "(downloadAuthFileJson rt net fileName tr = (parsed, tr') \<longrightarrow>
      snd (resolveGeminiCliProjectId rt net fileName tr) = tr @ [Download fileName] \<and>
      (truthy parsed \<and> typeof_object parsed \<and> field parsed ''account'' = JStr account \<longrightarrow>
         (\<forall>g. fst (resolveGeminiCliProjectId rt net fileName tr) = Some g \<longleftrightarrow> leftmost_group account g) \<and>
         (fst (resolveGeminiCliProjectId rt net fileName tr) = None \<longleftrightarrow> \<not> has_group account)) \<and>
      (\<not> truthy parsed \<or> \<not> typeof_object parsed \<or> \<not> is_string (field parsed ''account'') \<longrightarrow>
         fst (resolveGeminiCliProjectId rt net fileName tr) = None)) \<and>
   (\<not> nullish f \<longrightarrow>
      snd (gemini_fetch rt net f tr) =
        tr @ [Download (field f ''name''),
              ApiCall (gemini_request (js_or (field f ''authIndex'') (field f ''auth_index''))
                (json_stringify rt
                   (project_body (fst (resolveGeminiCliProjectId rt net (field f ''name'') tr)))))])"
  using resolve_gemini_trace [of rt net fileName tr]
    resolve_gemini_account [of rt net fileName tr parsed tr' account]
    resolve_gemini_none [of rt net fileName tr parsed tr']
    gemini_fetch_trace [of f rt net tr]
    match_iff_leftmost [of account] match_None [of account]
  by auto

theorem gemini_project_id_leftmost_group_witness:
  "leftmost_group ''user@example.com (p1) (p2)'' ''p1'' \<and>
   fst (resolveGeminiCliProjectId example_platform gemini_network (JStr ''two-groups.json'') []) = Some ''p1'' \<and>
   snd (gemini_fetch example_platform gemini_network two_groups_file []) =
     [Download (JStr ''two-groups.json''), ApiCall (gemini_request (JStr ''7'') (Some ''{\"project\":\"p1\"}''))] \<and>
   \<not> has_group ''user@example.com'' \<and>
   fst (resolveGeminiCliProjectId example_platform gemini_network (JStr ''no-group.json'') []) = None \<and>
   snd (gemini_fetch example_platform gemini_network no_group_file []) =
     [Download (JStr ''no-group.json''), ApiCall (gemini_request (JStr ''8'') (Some ''{}''))] \<and>
   fst (resolveGeminiCliProjectId example_platform gemini_network (JStr ''missing.json'') []) = None"
proof -
  let ?two = "JObj [(''type'', JStr ''gemini''), (''account'', JStr ''user@example.com (p1) (p2)'')]"
  let ?none = "JObj [(''type'', JStr ''gemini''), (''account'', JStr ''user@example.com'')]"
  have d1: "downloadAuthFileJson example_platform gemini_network (JStr ''two-groups.json'') [] =
      (?two, [Download (JStr ''two-groups.json'')])"
    by code_simp
  have d2: "downloadAuthFileJson example_platform gemini_network (JStr ''no-group.json'') [] =
      (?none, [Download (JStr ''no-group.json'')])"
    by code_simp
  have d3: "downloadAuthFileJson example_platform gemini_network (JStr ''missing.json'') [] =
      (JNull, [Download (JStr ''missing.json'')])"
    by code_simp
  have r1: "fst (resolveGeminiCliProjectId example_platform gemini_network (JStr ''two-groups.json'') []) = Some ''p1''"
    by code_simp
  have r2: "fst (resolveGeminiCliProjectId example_platform gemini_network (JStr ''no-group.json'') []) = None"
    by code_simp
  have b1: "json_stringify example_platform (project_body (Some ''p1'')) = Some ''{\"project\":\"p1\"}''"
    by code_simp
  have b2: "json_stringify example_platform (project_body None) = Some ''{}''"
    by code_simp
  note t1 = gemini_project_id_leftmost_group [where rt = example_platform and net = gemini_network
      and fileName = "JStr ''two-groups.json''" and tr = "[]" and parsed = ?two
      and tr' = "[Download (JStr ''two-groups.json'')]"
      and account = "''user@example.com (p1) (p2)''" and f = two_groups_file]
  note t2 = gemini_project_id_leftmost_group [where rt = example_platform and net = gemini_network
      and fileName = "JStr ''no-group.json''" and tr = "[]" and parsed = ?none
      and tr' = "[Download (JStr ''no-group.json'')]"
      and account = "''user@example.com''" and f = no_group_file]
  note t3 = gemini_project_id_leftmost_group [where rt = example_platform and net = gemini_network
      and fileName = "JStr ''missing.json''" and tr = "[]" and parsed = JNull
      and tr' = "[Download (JStr ''missing.json'')]" and f = no_group_file]
  have "leftmost_group ''user@example.com (p1) (p2)'' ''p1''"
    using t1 d1 r1 by auto
  moreover have "snd (gemini_fetch example_platform gemini_network two_groups_file []) =
     [Download (JStr ''two-groups.json''), ApiCall (gemini_request (JStr ''7'') (Some ''{\"project\":\"p1\"}''))]"
    using t1 r1 b1 by (simp add: two_groups_file_def nullish_def js_or_def)
  moreover have "\<not> has_group ''user@example.com''"
    using t2 d2 r2 by simp
  moreover have "snd (gemini_fetch example_platform gemini_network no_group_file []) =
     [Download (JStr ''no-group.json''), ApiCall (gemini_request (JStr ''8'') (Some ''{}''))]"
    using t2 r2 b2 by (simp add: no_group_file_def nullish_def js_or_def)
  moreover have "fst (resolveGeminiCliProjectId example_platform gemini_network (JStr ''missing.json'') []) = None"
    using t3 d3 by simp
  ultimately show ?thesis using r1 r2 by simp
qed

text \<open>
  The claim as stated asks for the last group; the pattern has no \<^verbatim>\<open>g\<close> flag and
  \<^verbatim>\<open>match\<close> returns the first.
\<close>

theorem gemini_project_id_takes_first_group:
  "fst (resolveGeminiCliProjectId example_platform gemini_network (JStr ''two-groups.json'') []) = Some ''p1'' \<and>
   fst (downloadAuthFileJson example_platform gemini_network (JStr ''two-groups.json'') []) =
     JObj [(''type'', JStr ''gemini''), (''account'', JStr ''user@example.com (p1) (p2)'')]"
  by code_simp

subsection \<open>The account id in a Codex id token\<close>



lemma split_dots_nonempty: "split_dots s \<noteq> []"
  by (induction s) (auto split: list.splits)






subsection \<open>The error of a response outside 2xx\<close>

lemma resolveStatusCode_positive:
  assumes "resolveStatusCode result = Some n"
  shows "positive_finite n"
  using assms
  by (auto simp: resolveStatusCode_def Let_def split: jsval.splits if_splits option.splits)

lemma positive_truthy: "positive_finite n \<Longrightarrow> truthy (JNum n)"
  by (cases n) (auto simp: positive_finite_def num_gt_def)

lemma http_prefix_resolved:
  "http_prefix rt (resolveStatusCode result) =
     (case resolveStatusCode result of
        None \<Rightarrow> ''HTTP error''
      | Some n \<Rightarrow> ''HTTP '' @ show_num (frac_to_string rt) n)"
  using resolveStatusCode_positive [of result] positive_truthy
  by (auto simp: http_prefix_def split: option.splits simp del: show_num.simps)

lemma errorObj_shape:
  "body result = JObj b \<Longrightarrow> map_of b ''error'' = Some (JObj e) \<Longrightarrow> errorObj_of result = JObj e"
  by (simp add: errorObj_of_def)

text \<open>
  Claim C8, as amended. The error of \<^verbatim>\<open>createNon2xxError\<close> carries the resolved
  status code as its \<^verbatim>\<open>statusCode\<close>, and none when no code can be resolved. With
  \<open>status_text\<close> for \<^verbatim>\<open>HTTP <code>\<close>, which is \<^verbatim>\<open>HTTP error\<close> when no code
  can be resolved: when the parsed body is an object whose \<^verbatim>\<open>error\<close> is an object,
  the message is the status text followed by the code and the message of that object,
  each left out when it is not a non-blank string, and when both are left out the message
  is the raw text; without such an error object the message is the raw text. The raw text
  is the trimmed body text when there is one, and the bare status text when there is no
  body at all.
\<close>

theorem non2xx_error:
  "error_statusCode (createNon2xxError rt result) = resolveStatusCode result \<and>
   (body result = JObj b \<and> map_of b ''error'' = Some (JObj e) \<longrightarrow> errorObj_of result = JObj e) \<and>
   (truthy (errorObj_of result) \<longrightarrow>
      message (createNon2xxError rt result) =
        (case (normalizeText (field (errorObj_of result) ''code''),
               normalizeText (field (errorObj_of result) ''message'')) of
           (Some c, Some m) \<Rightarrow> status_text rt result @ '' '' @ c @ '': '' @ m
         | (Some c, None) \<Rightarrow> status_text rt result @ '' '' @ c
         | (None, Some m) \<Rightarrow> status_text rt result @ '': '' @ m
         | (None, None) \<Rightarrow> raw_text rt result)) \<and>
   (\<not> truthy (errorObj_of result) \<longrightarrow> message (createNon2xxError rt result) = raw_text rt result) \<and>
   (bodyText result = JStr s \<and> trim s \<noteq> [] \<longrightarrow> raw_text rt result = trim s) \<and>
   (bodyText result = JStr [] \<and> nullish (body result) \<longrightarrow> raw_text rt result = status_text rt result)"
proof (intro conjI impI)
  show "error_statusCode (createNon2xxError rt result) = resolveStatusCode result"
    using resolveStatusCode_positive [of result] positive_truthy
    by (auto simp: createNon2xxError_def split: option.splits)
next
  assume "body result = JObj b \<and> map_of b ''error'' = Some (JObj e)"
  then show "errorObj_of result = JObj e" by (simp add: errorObj_shape)
next
  assume "truthy (errorObj_of result)"
  then show "message (createNon2xxError rt result) =
        (case (normalizeText (field (errorObj_of result) ''code''),
               normalizeText (field (errorObj_of result) ''message'')) of
           (Some c, Some m) \<Rightarrow> status_text rt result @ '' '' @ c @ '': '' @ m
         | (Some c, None) \<Rightarrow> status_text rt result @ '' '' @ c
         | (None, Some m) \<Rightarrow> status_text rt result @ '': '' @ m
         | (None, None) \<Rightarrow> raw_text rt result)"
    unfolding createNon2xxError_def formatNon2xxError_def Let_def raw_text_def status_text_def
      http_prefix_resolved
    by (simp split: option.splits del: show_num.simps field.simps)
next
  assume "\<not> truthy (errorObj_of result)"
  then show "message (createNon2xxError rt result) = raw_text rt result"
    unfolding createNon2xxError_def formatNon2xxError_def Let_def raw_text_def status_text_def
      http_prefix_resolved
    by (simp split: option.splits del: show_num.simps)
next
  assume "bodyText result = JStr s \<and> trim s \<noteq> []"
  then show "raw_text rt result = trim s"
    by (simp add: raw_text_def getOriginalErrorText_def stringifyIfNeeded_def normalizeText_def Let_def)
next
  assume "bodyText result = JStr [] \<and> nullish (body result)"
  then show "raw_text rt result = status_text rt result"
    by (auto simp: raw_text_def getOriginalErrorText_def stringifyIfNeeded_def normalizeText_def Let_def
        nullish_def trim_def split: option.splits)
qed

theorem non2xx_error_witness:
  "createNon2xxError example_platform quota_exceeded =
     Error ''HTTP 429 RESOURCE_EXHAUSTED: Quota exceeded'' (Some (Fin 429)) \<and>
   createNon2xxError example_platform empty_error = Error ''{\"error\":{}}'' (Some (Fin 500)) \<and>
   createNon2xxError example_platform no_status = Error ''HTTP error'' None"
proof -
  have r1: "resolveStatusCode quota_exceeded = Some (Fin 429)" by code_simp
  have r2: "resolveStatusCode empty_error = Some (Fin 500)" by code_simp
  have r3: "resolveStatusCode no_status = None" by code_simp
  have s1: "status_text example_platform quota_exceeded = ''HTTP 429''" by code_simp
  have s3: "status_text example_platform no_status = ''HTTP error''" by code_simp
  have n1: "normalizeText (field (JObj [(''code'', JStr ''RESOURCE_EXHAUSTED''), (''message'', JStr ''Quota exceeded'')]) ''code'')
      = Some ''RESOURCE_EXHAUSTED''"
    by code_simp
  have n2: "normalizeText (field (JObj [(''code'', JStr ''RESOURCE_EXHAUSTED''), (''message'', JStr ''Quota exceeded'')]) ''message'')
      = Some ''Quota exceeded''"
    by code_simp
  have t2: "trim ''{\"error\":{}}'' = ''{\"error\":{}}''" by code_simp
  note w1 = non2xx_error [where rt = example_platform and result = quota_exceeded
      and b = "[(''error'', JObj [(''code'', JStr ''RESOURCE_EXHAUSTED''), (''message'', JStr ''Quota exceeded'')])]"
      and e = "[(''code'', JStr ''RESOURCE_EXHAUSTED''), (''message'', JStr ''Quota exceeded'')]"]
  note w2 = non2xx_error [where rt = example_platform and result = empty_error
      and b = "[(''error'', JObj [])]" and e = "[]" and s = "''{\"error\":{}}''"]
  note w3 = non2xx_error [where rt = example_platform and result = no_status]
  have m1: "message (createNon2xxError example_platform quota_exceeded) = ''HTTP 429 RESOURCE_EXHAUSTED: Quota exceeded''"
    using w1 n1 n2 s1 by (simp add: quota_exceeded_def del: field.simps)
  have c1: "error_statusCode (createNon2xxError example_platform quota_exceeded) = Some (Fin 429)"
    using w1 r1 by simp
  have m2: "message (createNon2xxError example_platform empty_error) = ''{\"error\":{}}''"
    using w2 t2 by (simp add: empty_error_def normalizeText_def)
  have c2: "error_statusCode (createNon2xxError example_platform empty_error) = Some (Fin 500)"
    using w2 r2 by simp
  have m3: "message (createNon2xxError example_platform no_status) = ''HTTP error''"
    using w3 s3 by (simp add: no_status_def errorObj_of_def nullish_def)
  have c3: "error_statusCode (createNon2xxError example_platform no_status) = None"
    using w3 r3 by simp
  have e: "\<And>rt r. createNon2xxError rt r =
      Error (message (createNon2xxError rt r)) (error_statusCode (createNon2xxError rt r))"
    by (simp add: createNon2xxError_def)
  show ?thesis
    using e [of example_platform quota_exceeded] e [of example_platform empty_error]
      e [of example_platform no_status]
    unfolding m1 c1 m2 c2 m3 c3 by (intro conjI)
qed

text \<open>
  The claim as stated omits absent parts and so gives \<^verbatim>\<open>HTTP 500\<close> for an error
  object with neither code nor message; the code falls through to the raw body text.
\<close>

theorem non2xx_error_empty_error_object:
  "body empty_error = JObj [(''error'', JObj [])] \<and>
   createNon2xxError example_platform empty_error = Error ''{\"error\":{}}'' (Some (Fin 500)) \<and>
   message (createNon2xxError example_platform empty_error) \<noteq> ''HTTP 500''"
  by code_simp

subsection \<open>The attempts of the Antigravity fetch\<close>

lemma apiCall_trace: "snd (apiCall rt net req tr) = tr @ [ApiCall req]"
  by (simp add: apiCall_def split: sum.splits)

lemma length_attempts: "length (attempts rt net ai rb us tr) = length us"
  by (induction us arbitrary: tr) simp_all

lemma all_failed_last:
  assumes "first_success outs = length outs" "outs \<noteq> []"
  shows "isl (last outs)"
proof -
  have "takeWhile isl outs = outs"
    using assms(1) unfolding first_success_def
    by (metis takeWhile_eq_take take_all order_refl)
  then have "\<forall>x \<in> set outs. isl x" by (simp add: takeWhile_eq_all_conv)
  with assms(2) show ?thesis by simp
qed

lemma try_urls_spec:
  "try_urls rt net ai rb lastError us tr =
     (let outs = attempts rt net ai rb us tr; k = first_success outs in
      if k < length us then (outs ! k, tr @ calls_of ai rb (take (Suc k) us))
      else (if us = []
            then Inl (case lastError of None \<Rightarrow> Error ''Failed to fetch Antigravity quota'' None | Some e \<Rightarrow> e)
            else last outs,
            tr @ calls_of ai rb us))"
proof (induction us arbitrary: lastError tr)
  case Nil
  then show ?case by (simp add: first_success_def calls_of_def)
next
  case (Cons u us)
  let ?req = "antigravity_request ai rb u"
  obtain answer where a: "apiCall rt net ?req tr = (answer, tr @ [ApiCall ?req])"
    using apiCall_trace [of rt net ?req tr] by (cases "apiCall rt net ?req tr") simp
  show ?case
  proof (cases "attempt_outcome rt answer")
    case (Inr gs)
    with a show ?thesis by (simp add: first_success_def calls_of_def)
  next
    case (Inl e)
    let ?outs = "attempts rt net ai rb us (tr @ [ApiCall ?req])"
    have k: "first_success (Inl e # ?outs) = Suc (first_success ?outs)"
      by (simp add: first_success_def)
    have ne: "us \<noteq> [] \<Longrightarrow> ?outs \<noteq> []"
      using length_attempts [of rt net ai rb us "tr @ [ApiCall ?req]"] by auto
    from a Inl have "try_urls rt net ai rb lastError (u # us) tr =
        try_urls rt net ai rb (Some e) us (tr @ [ApiCall ?req])"
      by simp
    also note Cons.IH [of "Some e" "tr @ [ApiCall ?req]"]
    finally show ?thesis
      using a Inl k ne by (auto simp: Let_def calls_of_def)
  qed
qed

lemma resolve_antigravity_trace:
  "snd (resolveAntigravityProjectId rt net n tr) = tr @ [Download n]"
proof -
  have "snd (downloadAuthFileJson rt net n tr) = tr @ [Download n]"
    by (simp add: downloadAuthFileJson_def Let_def split: option.splits)
  then show ?thesis
    by (auto simp: resolveAntigravityProjectId_def Let_def split: prod.splits option.splits)
qed

lemma attempt_success:
  "attempt_outcome rt answer = Inr gs \<longleftrightarrow>
     (\<exists>result. answer = Inr result \<and> is_2xx (statusCode result) \<and> truthy (body result) \<and>
        antigravity_parse (body result) = Inr gs)"
  by (cases answer) (auto simp: attempt_outcome_def split: sum.splits)

lemma first_success_props:
  assumes "first_success outs < length outs"
  shows "\<not> isl (outs ! first_success outs)" "\<forall>i < first_success outs. isl (outs ! i)"
proof -
  show "\<not> isl (outs ! first_success outs)"
    using assms nth_length_takeWhile [of isl outs] by (simp add: first_success_def)
  show "\<forall>i < first_success outs. isl (outs ! i)"
  proof (intro allI impI)
    fix i assume i: "i < first_success outs"
    then have "takeWhile isl outs ! i = outs ! i"
      by (simp add: first_success_def takeWhile_nth)
    moreover have "takeWhile isl outs ! i \<in> set (takeWhile isl outs)"
      using i by (simp add: first_success_def)
    ultimately show "isl (outs ! i)" using set_takeWhileD by metis
  qed
qed

lemma all_failed_props:
  assumes "\<not> first_success outs < length outs"
  shows "\<forall>i < length outs. isl (outs ! i)"
proof -
  have "first_success outs = length outs"
    using assms length_takeWhile_le [of isl outs] by (simp add: first_success_def)
  then have "takeWhile isl outs = outs"
    unfolding first_success_def by (metis takeWhile_eq_take take_all order_refl)
  then have "\<forall>x \<in> set outs. isl x" by (simp add: takeWhile_eq_all_conv)
  then show ?thesis by simp
qed

text \<open>
  Claim C4, as amended. \<^verbatim>\<open>antigravityQuota.fetch\<close> downloads the credential file
  and then calls its three addresses in list order, with the same request but for the
  address. An attempt succeeds exactly when its answer has a status in \<open>[200, 300)\<close>, a
  truthy parsed body, and \<^verbatim>\<open>parse\<close> returns on that body; the first attempt that
  succeeds ends the loop with the parsed groups, and no later address is called. When all
  three attempts fail, every address has been called once and the error thrown is the one
  of the third attempt.
\<close>

theorem antigravity_fetch_attempts:
  "(attempt_outcome rt answer = Inr gs \<longleftrightarrow>
      (\<exists>result. answer = Inr result \<and> is_2xx (statusCode result) \<and> truthy (body result) \<and>
         antigravity_parse (body result) = Inr gs)) \<and>
   (\<not> nullish f \<longrightarrow>
      (let ai = js_or (field f ''authIndex'') (field f ''auth_index'');
           requestBody = json_stringify rt
             (JObj [(''project'', JStr (fst (resolveAntigravityProjectId rt net (field f ''name'') tr)))]);
           tr1 = tr @ [Download (field f ''name'')];
           outs = attempts rt net ai requestBody URLS tr1;
           k = first_success outs
       in length outs = 3 \<and>
          (k < 3 \<longrightarrow>
             \<not> isl (outs ! k) \<and> (\<forall>i < k. isl (outs ! i)) \<and>
             antigravity_fetch rt net f tr = (outs ! k, tr1 @ calls_of ai requestBody (take (Suc k) URLS))) \<and>
          (\<not> k < 3 \<longrightarrow>
             (\<forall>i < 3. isl (outs ! i)) \<and>
             antigravity_fetch rt net f tr = (outs ! 2, tr1 @ calls_of ai requestBody URLS))))"
proof (intro conjI impI)
  show "attempt_outcome rt answer = Inr gs \<longleftrightarrow>
      (\<exists>result. answer = Inr result \<and> is_2xx (statusCode result) \<and> truthy (body result) \<and>
         antigravity_parse (body result) = Inr gs)"
    by (rule attempt_success)
next
  assume nn: "\<not> nullish f"
  define ai where "ai = js_or (field f ''authIndex'') (field f ''auth_index'')"
  define rb where "rb = json_stringify rt
             (JObj [(''project'', JStr (fst (resolveAntigravityProjectId rt net (field f ''name'') tr)))])"
  define tr1 where "tr1 = tr @ [Download (field f ''name'')]"
  define outs where "outs = attempts rt net ai rb URLS tr1"
  define k where "k = first_success outs"
  have len: "length outs = 3"
    unfolding outs_def by (simp add: length_attempts URLS_def)
  have "antigravity_fetch rt net f tr = try_urls rt net ai rb None URLS tr1"
    using nn resolve_antigravity_trace [of rt net "field f ''name''" tr]
    by (cases "resolveAntigravityProjectId rt net (field f ''name'') tr")
      (simp add: antigravity_fetch_def Let_def ai_def rb_def tr1_def)
  then have fetch: "antigravity_fetch rt net f tr =
      (if k < 3 then (outs ! k, tr1 @ calls_of ai rb (take (Suc k) URLS))
       else (last outs, tr1 @ calls_of ai rb URLS))"
    unfolding try_urls_spec Let_def outs_def [symmetric] k_def [symmetric]
    by (simp add: URLS_def)
  have "outs \<noteq> []" using len by auto
  then have last: "last outs = outs ! 2"
    using len last_conv_nth [of outs] by simp
  have "k < 3 \<longrightarrow>
             \<not> isl (outs ! k) \<and> (\<forall>i < k. isl (outs ! i)) \<and>
             antigravity_fetch rt net f tr = (outs ! k, tr1 @ calls_of ai rb (take (Suc k) URLS))"
    using first_success_props [of outs] fetch len unfolding k_def by simp
  moreover have "\<not> k < 3 \<longrightarrow>
             (\<forall>i < 3. isl (outs ! i)) \<and>
             antigravity_fetch rt net f tr = (outs ! 2, tr1 @ calls_of ai rb URLS)"
    using all_failed_props [of outs] fetch len last unfolding k_def by simp
  ultimately show "let ai = js_or (field f ''authIndex'') (field f ''auth_index'');
           requestBody = json_stringify rt
             (JObj [(''project'', JStr (fst (resolveAntigravityProjectId rt net (field f ''name'') tr)))]);
           tr1 = tr @ [Download (field f ''name'')];
           outs = attempts rt net ai requestBody URLS tr1;
           k = first_success outs
       in length outs = 3 \<and>
          (k < 3 \<longrightarrow>
             \<not> isl (outs ! k) \<and> (\<forall>i < k. isl (outs ! i)) \<and>
             antigravity_fetch rt net f tr = (outs ! k, tr1 @ calls_of ai requestBody (take (Suc k) URLS))) \<and>
          (\<not> k < 3 \<longrightarrow>
             (\<forall>i < 3. isl (outs ! i)) \<and>
             antigravity_fetch rt net f tr = (outs ! 2, tr1 @ calls_of ai requestBody URLS))"
    using len unfolding Let_def ai_def rb_def tr1_def outs_def k_def by blast
qed

theorem antigravity_fetch_attempts_witness:
  "antigravity_fetch example_platform third_url_network antigravity_file [] =
     (Inr example_groups,
      [Download (JStr ''antigravity.json''), ApiCall (project_request (URLS ! 0)),
       ApiCall (project_request (URLS ! 1)), ApiCall (project_request (URLS ! 2))]) \<and>
   antigravity_fetch example_platform failing_network antigravity_file [] =
     (Inl (Error ''HTTP 200'' None),
      [Download (JStr ''antigravity.json''), ApiCall (project_request (URLS ! 0)),
       ApiCall (project_request (URLS ! 1)), ApiCall (project_request (URLS ! 2))])"
proof -
  have f: "\<not> nullish antigravity_file"
    "js_or (field antigravity_file ''authIndex'') (field antigravity_file ''auth_index'') = JStr ''3''"
    "field antigravity_file ''name'' = JStr ''antigravity.json''"
    by (simp_all add: antigravity_file_def nullish_def js_or_def)
  have rb1: "json_stringify example_platform
      (JObj [(''project'', JStr (fst (resolveAntigravityProjectId example_platform third_url_network
          (JStr ''antigravity.json'') [])))]) = Some ''{\"project\":\"my-project\"}''"
    by code_simp
  have rb2: "json_stringify example_platform
      (JObj [(''project'', JStr (fst (resolveAntigravityProjectId example_platform failing_network
          (JStr ''antigravity.json'') [])))]) = Some ''{\"project\":\"my-project\"}''"
    by code_simp
  have o1: "attempts example_platform third_url_network (JStr ''3'') (Some ''{\"project\":\"my-project\"}'') URLS
      [Download (JStr ''antigravity.json'')] =
      [Inl (Error ''HTTP 500 INTERNAL: backend error'' (Some (Fin 500))),
       Inl (Error ''unavailable'' (Some (Fin 500))),
       Inr example_groups]"
    by code_simp
  have o2: "attempts example_platform failing_network (JStr ''3'') (Some ''{\"project\":\"my-project\"}'') URLS
      [Download (JStr ''antigravity.json'')] =
      [Inl (Error ''unavailable'' (Some (Fin 500))), Inl (Error ''timeout'' None), Inl (Error ''HTTP 200'' None)]"
    by code_simp
  have k1: "first_success [Inl (Error ''HTTP 500 INTERNAL: backend error'' (Some (Fin 500))),
       Inl (Error ''unavailable'' (Some (Fin 500))), Inr example_groups] = 2"
    by (simp add: first_success_def)
  have k2: "first_success [Inl (Error ''unavailable'' (Some (Fin 500))), Inl (Error ''timeout'' None),
       Inl (Error ''HTTP 200'' None)] = 3"
    by (simp add: first_success_def)
  have c: "calls_of (JStr ''3'') (Some ''{\"project\":\"my-project\"}'') URLS =
      [ApiCall (project_request (URLS ! 0)), ApiCall (project_request (URLS ! 1)),
       ApiCall (project_request (URLS ! 2))]"
    by (simp add: calls_of_def project_request_def URLS_def)
  have "antigravity_fetch example_platform third_url_network antigravity_file [] =
     (Inr example_groups,
      [Download (JStr ''antigravity.json'')] @ calls_of (JStr ''3'') (Some ''{\"project\":\"my-project\"}'') URLS)"
    using antigravity_fetch_attempts [where rt = example_platform and net = third_url_network
        and f = antigravity_file and tr = "[]"] f
    unfolding Let_def f rb1 append_Nil o1 k1 by (simp add: URLS_def)
  moreover have "antigravity_fetch example_platform failing_network antigravity_file [] =
     (Inl (Error ''HTTP 200'' None),
      [Download (JStr ''antigravity.json'')] @ calls_of (JStr ''3'') (Some ''{\"project\":\"my-project\"}'') URLS)"
    using antigravity_fetch_attempts [where rt = example_platform and net = failing_network
        and f = antigravity_file and tr = "[]"] f
    unfolding Let_def f rb2 append_Nil o2 k2 by simp
  ultimately show ?thesis unfolding c by simp
qed

text \<open>
  The claim as stated returns at once on the first status in \<open>[200, 300)\<close> with a
  non-empty body. Here the first address answers 200 with a body whose model has a
  numeric display name: \<^verbatim>\<open>parse\<close> throws inside the \<^verbatim>\<open>try\<close>, the
  exception becomes \<^verbatim>\<open>lastError\<close>, and the second address is called.
\<close>

theorem antigravity_fetch_parse_failure_continues:
  "fst (apiCall example_platform throwing_network (project_request (URLS ! 0)) [Download (JStr ''antigravity.json'')]) =
     Inr \<lparr>statusCode = JNum (Fin 200), response_header = JObj [],
          bodyText = JStr ''{\"models\":{\"x\":{\"displayName\":5}}}'',
          body = JObj [(''models'', JObj [(''x'', JObj [(''displayName'', JNum (Fin 5))])])]\<rparr> \<and>
   antigravity_fetch example_platform throwing_network antigravity_file [] =
     (Inr [],
      [Download (JStr ''antigravity.json''), ApiCall (project_request (URLS ! 0)),
       ApiCall (project_request (URLS ! 1))])"
  by code_simp

subsection \<open>The dispatch by type\<close>




end
